theory Spec2Isabelle
  imports Complex_Main "HOL-Library.Multiset"
begin

section \<open>Data model of better_model.py\<close>

text \<open>
  Tensors are nested lists (outermost axis first); float elements are read as reals.
  Every Python exception is a value of \<open>error\<close>; a call that may raise returns
  \<open>error + 'a\<close> with \<open>Inl\<close> the exception.
\<close>

datatype error =
    AssertionError | KeyError | IndexError | RuntimeError | AttributeError | UnboundLocalError
  | FileNotFoundError | FileExistsError | IsADirectoryError | NotADirectoryError

definition ebind :: "error + 'a \<Rightarrow> ('a \<Rightarrow> error + 'b) \<Rightarrow> error + 'b" where
  "ebind m f = (case m of Inl e \<Rightarrow> Inl e | Inr x \<Rightarrow> f x)"

text \<open>The recurrent final state: one tensor, or a pair of tensors for the LSTM
  (the source tests \<open>isinstance(final_state, tuple)\<close>).\<close>

datatype state = Tensor "real list list list" | Tuple "real list list list" "real list list list"

text \<open>\<open>nn.Linear(in_features, out_features)\<close> with its weight (out x in) and bias.\<close>

record Linear =
  in_features :: nat
  out_features :: nat
  weight :: "real list list"
  bias :: "real list"

text \<open>The attributes that \<open>VideoEncoder.__init__\<close> sets only when \<open>enable_ctc\<close>.\<close>

record ctc_head =
  ctc_vocab_size :: int
  adj_vocab_size :: int
  ctc_char2idx :: "string \<rightharpoonup> int"
  num_dirs :: nat
  ctc_output_mask :: "bool list"
  ctc_output_proj :: Linear

text \<open>
  \<open>enc_rnn\<close> is the recurrent layer \<open>getattr(nn, rnn_type)(...)\<close> with its weights, as the
  function it computes on one unpadded sequence: the per-timestep outputs, and the final
  \<open>h_n\<close> and \<open>c_n\<close> slots (layer-direction major); \<open>c_n\<close> is read only for the LSTM.
\<close>

record VideoEncoder =
  frame_dim :: nat
  enc_hidden_size :: nat
  frame_processing :: string
  enc_rnn_type :: string
  enc_num_layers :: nat
  bidirectional :: bool
  enc_rnn_dropout :: real
  enable_ctc :: bool
  enc_best_error :: real
  ctc :: "ctc_head option"
  enc_rnn :: "real list list \<Rightarrow> real list list \<times> real list list \<times> real list list"

text \<open>
  \<open>dec_rnn\<close> is the decoder's recurrent layer on a batch of length-1 sequences: from the
  embedded characters (batch x char_dim) and the previous state it gives the hidden
  state of the single step (batch x hidden_size) and the new state, or raises.
\<close>

record CharDecodingStep =
  dec_hidden_size :: nat
  dec_rnn_type :: string
  dec_num_layers :: nat
  dec_rnn_dropout :: real
  char_dim :: nat
  vocab_size :: int
  char2idx :: "string \<rightharpoonup> int"
  attention_type :: string
  output_mask :: "bool list"
  embedding :: "real list list"
  dec_rnn :: "real list list \<Rightarrow> state \<Rightarrow> error + (real list list \<times> state)"
  attn_proj_1_layer_nn :: "Linear option"
  attn_proj_general :: "Linear option"
  attn_proj_layer1 :: "Linear option"
  attn_proj_layer2 :: "Linear option"
  concat_layer :: Linear
  output_proj :: Linear
  dec_best_error :: real

section \<open>The file system and the console, as save_best_model sees them\<close>

text \<open>
  The world outside the component: the directories that exist, the checkpoint files
  with their contents, and the notices printed. Paths are compared as written.
\<close>

record 'p world =
  dirs :: "string set"
  files :: "string \<rightharpoonup> 'p"
  stdout :: "(real \<times> string) list"

text \<open>\<open>posixpath.dirname\<close>: the head up to the last slash, trailing slashes stripped
  unless the head is slashes only.\<close>

definition os_path_dirname :: "string \<Rightarrow> string" where
  "os_path_dirname p =
     (let head = rev (dropWhile (\<lambda>c. c \<noteq> CHR ''/'') (rev p))
      in if head \<noteq> [] \<and> (\<exists>c \<in> set head. c \<noteq> CHR ''/'')
         then rev (dropWhile (\<lambda>c. c = CHR ''/'') (rev head)) else head)"

text \<open>\<open>os.path.exists\<close>: false on the empty path.\<close>

definition os_path_exists :: "'p world \<Rightarrow> string \<Rightarrow> bool" where
  "os_path_exists w p = (p \<noteq> [] \<and> (p \<in> dirs w \<or> files w p \<noteq> None))"

definition ancestors :: "string \<Rightarrow> string list" where
  "ancestors p = map (\<lambda>i. take i p) (filter (\<lambda>i. p ! i = CHR ''/'') [1..<length p])"

text \<open>\<open>os.makedirs(name)\<close>: creates the directory and its missing parents; raises on the
  empty path, on an existing path, and below a regular file.\<close>

definition os_makedirs :: "'p world \<Rightarrow> string \<Rightarrow> error + 'p world" where
  "os_makedirs w name =
     (if name = [] then Inl FileNotFoundError
      else if os_path_exists w name then Inl FileExistsError
      else if \<exists>a \<in> set (ancestors name). files w a \<noteq> None then Inl NotADirectoryError
      else Inr (w\<lparr>dirs := dirs w \<union> set (ancestors name) \<union> {name}\<rparr>))"

text \<open>\<open>torch.save(obj, file_path)\<close>: opens the path for writing and stores the object;
  raises when the path is empty or a directory, or when its parent is missing.\<close>

definition torch_save :: "'p world \<Rightarrow> 'p \<Rightarrow> string \<Rightarrow> error + 'p world" where
  "torch_save w obj file_path =
     (if file_path = [] then Inl FileNotFoundError
      else if file_path \<in> dirs w \<or> last file_path = CHR ''/'' then Inl IsADirectoryError
      else if os_path_dirname file_path \<noteq> [] \<and> files w (os_path_dirname file_path) \<noteq> None
        then Inl NotADirectoryError
      else if os_path_dirname file_path \<noteq> [] \<and> os_path_dirname file_path \<notin> dirs w
        then Inl FileNotFoundError
      else Inr (w\<lparr>files := (files w)(file_path \<mapsto> obj)\<rparr>))"

section \<open>save_best_model\<close>

text \<open>\<open>state_dict()\<close>: the registered parameters, not the plain attribute \<open>best_error\<close>.\<close>

type_synonym enc_params =
  "(real list list \<Rightarrow> real list list \<times> real list list \<times> real list list) \<times> Linear option"

definition enc_state_dict :: "VideoEncoder \<Rightarrow> enc_params" where
  "enc_state_dict self = (enc_rnn self, map_option ctc_output_proj (ctc self))"

type_synonym dec_params =
  "real list list \<times> (real list list \<Rightarrow> state \<Rightarrow> error + (real list list \<times> state))
   \<times> Linear option \<times> Linear option \<times> Linear option \<times> Linear option \<times> Linear \<times> Linear"

definition dec_state_dict :: "CharDecodingStep \<Rightarrow> dec_params" where
  "dec_state_dict self =
     (embedding self, dec_rnn self, attn_proj_1_layer_nn self, attn_proj_general self,
      attn_proj_layer1 self, attn_proj_layer2 self, concat_layer self, output_proj self)"

text \<open>
  The method mutates \<open>self\<close> and the world and may raise: the model returns the
  component and the world as they are when the call ends, and the exception if any.
\<close>

definition enc_save_best_model ::
  "VideoEncoder \<Rightarrow> real \<Rightarrow> string \<Rightarrow> enc_params world
     \<Rightarrow> VideoEncoder \<times> enc_params world \<times> error option" where
  "enc_save_best_model self err file_path w =
     (if err < enc_best_error self then
        (let self1 = self\<lparr>enc_best_error := err\<rparr>;
             folder = os_path_dirname file_path
         in case (if \<not> os_path_exists w folder then os_makedirs w folder else Inr w) of
              Inl e \<Rightarrow> (self1, w, Some e)
            | Inr w1 \<Rightarrow>
               (case torch_save w1 (enc_state_dict self1) file_path of
                  Inl e \<Rightarrow> (self1, w1, Some e)
                | Inr w2 \<Rightarrow>
                    (self1, w2\<lparr>stdout := stdout w2 @ [(enc_best_error self1, file_path)]\<rparr>, None)))
      else (self, w, None))"

definition dec_save_best_model ::
  "CharDecodingStep \<Rightarrow> real \<Rightarrow> string \<Rightarrow> dec_params world
     \<Rightarrow> CharDecodingStep \<times> dec_params world \<times> error option" where
  "dec_save_best_model self err file_path w =
     (if err < dec_best_error self then
        (let self1 = self\<lparr>dec_best_error := err\<rparr>;
             folder = os_path_dirname file_path
         in case (if \<not> os_path_exists w folder then os_makedirs w folder else Inr w) of
              Inl e \<Rightarrow> (self1, w, Some e)
            | Inr w1 \<Rightarrow>
               (case torch_save w1 (dec_state_dict self1) file_path of
                  Inl e \<Rightarrow> (self1, w1, Some e)
                | Inr w2 \<Rightarrow>
                    (self1, w2\<lparr>stdout := stdout w2 @ [(dec_best_error self1, file_path)]\<rparr>, None)))
      else (self, w, None))"

section \<open>Construction\<close>

definition ALLOWED_RNN_TYPES :: "string set" where
  "ALLOWED_RNN_TYPES = {''LSTM'', ''GRU'', ''RNN''}"

definition ALLOWED_FRAME_PROCESSING :: "string set" where
  "ALLOWED_FRAME_PROCESSING = {''flatten''}"

definition ALLOWED_ATTENTION_TYPES :: "string set" where
  "ALLOWED_ATTENTION_TYPES = {''none'', ''dot'', ''general'', ''1_layer_nn'', ''concat''}"

text \<open>\<open>torch.ones(n)\<close> as a mask: \<open>True\<close> is 1, \<open>False\<close> is 0.\<close>

definition torch_ones :: "int \<Rightarrow> error + bool list" where
  "torch_ones n = (if n < 0 then Inl RuntimeError else Inr (replicate (nat n) True))"

text \<open>\<open>t[i] = v\<close> on a 1-D tensor: a negative index counts from the end, an index out of
  range raises.\<close>

definition setitem :: "'a list \<Rightarrow> int \<Rightarrow> 'a \<Rightarrow> error + 'a list" where
  "setitem t i v =
     (let n = int (length t); j = (if i < 0 then i + n else i)
      in if 0 \<le> j \<and> j < n then Inr (t[nat j := v]) else Inl IndexError)"

definition getitem :: "('k \<rightharpoonup> 'v) \<Rightarrow> 'k \<Rightarrow> error + 'v" where
  "getitem d k = (case d k of None \<Rightarrow> Inl KeyError | Some v \<Rightarrow> Inr v)"

definition nn_Linear :: "nat \<Rightarrow> nat \<Rightarrow> real list list \<times> real list \<Rightarrow> Linear" where
  "nn_Linear i o' wb = \<lparr>in_features = i, out_features = o', weight = fst wb, bias = snd wb\<rparr>"

text \<open>
  \<open>VideoEncoder.__init__\<close>. \<open>PAD\<close> and \<open>BOS\<close> are the constants imported from
  \<open>src.data.data_loader\<close> and are parameters here, as are the weights that the layers
  hold: \<open>rnn_w\<close> for the recurrent layer, \<open>proj_w\<close> for the output projection.
\<close>

definition VideoEncoder_init ::
  "string \<Rightarrow> string \<Rightarrow> (real list list \<Rightarrow> real list list \<times> real list list \<times> real list list)
     \<Rightarrow> real list list \<times> real list
     \<Rightarrow> nat \<Rightarrow> nat \<Rightarrow> string \<Rightarrow> string \<Rightarrow> nat \<Rightarrow> bool \<Rightarrow> real \<Rightarrow> bool \<Rightarrow> int
     \<Rightarrow> (string \<rightharpoonup> int) option \<Rightarrow> error + VideoEncoder" where
  "VideoEncoder_init PAD BOS rnn_w proj_w frame_dim' hidden_size' frame_processing' rnn_type'
       num_layers' bidirectional' rnn_dropout' enable_ctc' vocab_size' char2idx' =
     (if frame_processing' \<notin> ALLOWED_FRAME_PROCESSING then Inl AssertionError
      else if rnn_type' \<notin> ALLOWED_RNN_TYPES then Inl AssertionError
      else if enable_ctc' \<and> \<not> (vocab_size' > 0 \<and> char2idx' \<noteq> None) then Inl AssertionError
      else
        ebind
          (if enable_ctc' then
             (case char2idx' of
                None \<Rightarrow> Inl AssertionError
              | Some c2i \<Rightarrow>
                  ebind (torch_ones (vocab_size' + 1)) (\<lambda>m0.
                  ebind (getitem c2i PAD) (\<lambda>pad.
                  ebind (setitem m0 (pad + 1) False) (\<lambda>m1.
                  ebind (getitem c2i BOS) (\<lambda>bos.
                  ebind (setitem m1 (bos + 1) False) (\<lambda>m2.
                  Inr (Some \<lparr>ctc_vocab_size = vocab_size', adj_vocab_size = vocab_size' + 1,
                         ctc_char2idx = c2i, num_dirs = (if bidirectional' then 2 else 1),
                         ctc_output_mask = m2,
                         ctc_output_proj =
                           nn_Linear ((if bidirectional' then 2 else 1) * hidden_size')
                             (nat (vocab_size' + 1)) proj_w\<rparr>)))))))
           else Inr None)
          (\<lambda>head.
             Inr \<lparr>frame_dim = frame_dim', enc_hidden_size = hidden_size',
                  frame_processing = frame_processing', enc_rnn_type = rnn_type',
                  enc_num_layers = num_layers', bidirectional = bidirectional',
                  enc_rnn_dropout = rnn_dropout', enable_ctc = enable_ctc',
                  enc_best_error = 1, ctc = head, enc_rnn = rnn_w\<rparr>))"

text \<open>The weights that the layers of the decoding step hold.\<close>

record dec_weights =
  w_embedding :: "real list list"
  w_rnn :: "real list list \<Rightarrow> state \<Rightarrow> error + (real list list \<times> state)"
  w_attn_proj_1_layer_nn :: "real list list \<times> real list"
  w_attn_proj_general :: "real list list \<times> real list"
  w_attn_proj_layer1 :: "real list list \<times> real list"
  w_attn_proj_layer2 :: "real list list \<times> real list"
  w_concat_layer :: "real list list \<times> real list"
  w_output_proj :: "real list list \<times> real list"

definition CharDecodingStep_init ::
  "string \<Rightarrow> string \<Rightarrow> dec_weights \<Rightarrow> VideoEncoder \<Rightarrow> nat \<Rightarrow> int \<Rightarrow> (string \<rightharpoonup> int)
     \<Rightarrow> real \<Rightarrow> string \<Rightarrow> int \<Rightarrow> error + CharDecodingStep" where
  "CharDecodingStep_init PAD BOS ws encoder char_dim' vocab_size' char2idx' rnn_dropout'
       attention_type' attn_hidden_size =
     (if attention_type' \<notin> ALLOWED_ATTENTION_TYPES then Inl AssertionError
      else if attention_type' = ''concat'' \<and> \<not> attn_hidden_size > 0 then Inl AssertionError
      else
        (let hs = enc_hidden_size encoder * (if bidirectional encoder then 2 else 1) in
          ebind (torch_ones vocab_size') (\<lambda>m0.
          ebind (getitem char2idx' PAD) (\<lambda>pad.
          ebind (setitem m0 pad False) (\<lambda>m1.
          ebind (getitem char2idx' BOS) (\<lambda>bos.
          ebind (setitem m1 bos False) (\<lambda>m2.
          Inr \<lparr>dec_hidden_size = hs, dec_rnn_type = enc_rnn_type encoder,
               dec_num_layers = enc_num_layers encoder, dec_rnn_dropout = rnn_dropout',
               char_dim = char_dim', vocab_size = vocab_size', char2idx = char2idx',
               attention_type = attention_type', output_mask = m2,
               embedding = w_embedding ws, dec_rnn = w_rnn ws,
               attn_proj_1_layer_nn =
                 (if attention_type' = ''1_layer_nn''
                  then Some (nn_Linear (2 * hs) 1 (w_attn_proj_1_layer_nn ws)) else None),
               attn_proj_general =
                 (if attention_type' = ''general''
                  then Some (nn_Linear hs hs (w_attn_proj_general ws)) else None),
               attn_proj_layer1 =
                 (if attention_type' = ''concat''
                  then Some (nn_Linear (2 * hs) (nat attn_hidden_size) (w_attn_proj_layer1 ws))
                  else None),
               attn_proj_layer2 =
                 (if attention_type' = ''concat''
                  then Some (nn_Linear (nat attn_hidden_size) 1 (w_attn_proj_layer2 ws))
                  else None),
               concat_layer = nn_Linear (2 * hs) hs (w_concat_layer ws),
               output_proj = nn_Linear hs (nat vocab_size') (w_output_proj ws),
               dec_best_error = 1\<rparr>)))))))"

section \<open>Library operations on tensors\<close>

fun emap :: "('a \<Rightarrow> error + 'b) \<Rightarrow> 'a list \<Rightarrow> error + 'b list" where
  "emap f [] = Inr []"
| "emap f (x # xs) = ebind (f x) (\<lambda>y. ebind (emap f xs) (\<lambda>ys. Inr (y # ys)))"

text \<open>\<open>t.index_select(0, idx)\<close> and \<open>t.index_select(1, idx)\<close>: an index out of range raises.\<close>

definition index_select :: "'a list \<Rightarrow> nat list \<Rightarrow> error + 'a list" where
  "index_select t idx =
     (if \<forall>i \<in> set idx. i < length t then Inr (map (\<lambda>i. t ! i) idx) else Inl IndexError)"

definition index_select1 :: "'a list list \<Rightarrow> nat list \<Rightarrow> error + 'a list list" where
  "index_select1 t idx = emap (\<lambda>r. index_select r idx) t"

text \<open>\<open>frames.reshape(frames.shape[0], frames.shape[1], -1)\<close> on a 4-D tensor: the last two
  axes are flattened; the size \<open>-1\<close> cannot be inferred for a tensor of no elements.\<close>

definition reshape_flatten :: "'a list list list list \<Rightarrow> error + 'a list list list" where
  "reshape_flatten frames =
     (if concat (concat (concat frames)) = [] then Inl RuntimeError
      else Inr (map (map concat) frames))"

text \<open>
  Modelled from the spec: \<open>sort_batch_by_length\<close> is imported from \<open>allennlp.nn.util\<close>; its
  body is not in the repository. Per the spec (4.1) it returns the batch permuted into
  descending order of true length, the permuted lengths, a restoration permutation, and
  the permutation itself; mismatched batch sizes are fatal (7). The permutation is the
  stable descending sort of the positions, the restoration permutation the ascending
  sort of the positions of the permutation.
\<close>

definition sort_batch_by_length ::
  "'a list \<Rightarrow> int list \<Rightarrow> error + ('a list \<times> int list \<times> nat list \<times> nat list)" where
  "sort_batch_by_length tensor sequence_lengths =
     (if length sequence_lengths \<noteq> length tensor then Inl RuntimeError
      else
        (let permutation_index =
               sort_key (\<lambda>i. - (sequence_lengths ! i)) [0..<length sequence_lengths];
             restoration_indices =
               sort_key (\<lambda>j. permutation_index ! j) [0..<length permutation_index]
         in Inr (map (\<lambda>i. tensor ! i) permutation_index,
                 map (\<lambda>i. sequence_lengths ! i) permutation_index,
                 restoration_indices, permutation_index)))"

text \<open>
  Modelled from the spec: \<open>nn.utils.rnn.pack_padded_sequence(input, lengths,
  batch_first=True)\<close> is library code. Per the spec (3, 4.2 step 3, 7) the packed batch
  holds each sequence truncated to its true length; the lengths are in descending order,
  at least 1 and at most the padded sequence dimension, and a violation is fatal.
\<close>

definition pack_padded_sequence :: "'a list list \<Rightarrow> int list \<Rightarrow> error + 'a list list" where
  "pack_padded_sequence input lengths =
     (if input = [] \<or> length lengths \<noteq> length input then Inl RuntimeError
      else if \<not> sorted (rev lengths) then Inl RuntimeError
      else if \<exists>(s, l) \<in> set (zip input lengths). l < 1 \<or> int (length s) < l then Inl RuntimeError
      else Inr (map (\<lambda>(s, l). take (nat l) s) (zip input lengths)))"

text \<open>
  Modelled from the spec: \<open>nn.utils.rnn.pad_packed_sequence(sequence, batch_first=True)\<close>
  is library code. Per the spec (4.2 step 3) each sequence is extended to the longest
  length of the batch with the pad value, the zero vector of the layer's output width.
\<close>

definition pad_packed_sequence :: "nat \<Rightarrow> real list list list \<Rightarrow> real list list list" where
  "pad_packed_sequence width seqs =
     map (\<lambda>s. s @ replicate (Max (set (map length seqs)) - length s) (replicate width 0)) seqs"

text \<open>The final state of a batch: slot \<open>k\<close> of every sequence, for the
  \<open>num_layers * num_dir\<close> slots.\<close>

definition stack_slots :: "nat \<Rightarrow> 'a list list \<Rightarrow> 'a list list" where
  "stack_slots n per_seq = map (\<lambda>k. map (\<lambda>f. f ! k) per_seq) [0..<n]"

text \<open>\<open>s[start:s.shape[0]:2]\<close>.\<close>

definition slice_step2 :: "nat \<Rightarrow> 'a list \<Rightarrow> 'a list" where
  "slice_step2 start s = map (\<lambda>i. s ! i) (filter (\<lambda>i. (i - start) mod 2 = 0) [start..<length s])"

text \<open>\<open>torch.cat([a, b], dim=2)\<close> on 3-D tensors: the first two axes must agree.\<close>

definition torch_cat_dim2 ::
  "'a list list list \<Rightarrow> 'a list list list \<Rightarrow> error + 'a list list list" where
  "torch_cat_dim2 a b =
     (if length a = length b \<and> (\<forall>(x, y) \<in> set (zip a b). length x = length y)
      then Inr (map (\<lambda>(x, y). map (\<lambda>(u, v). u @ v) (zip x y)) (zip a b))
      else Inl RuntimeError)"

text \<open>\<open>nn.Linear.VideoEncoder_forward\<close> on one vector: \<open>x W\<^sup>T + b\<close>; a wrong input width raises.\<close>

definition Linear_forward :: "Linear \<Rightarrow> real list \<Rightarrow> error + real list" where
  "Linear_forward l x =
     (if length x \<noteq> in_features l then Inl RuntimeError
      else Inr (map (\<lambda>(w, b). sum_list (map (\<lambda>(u, v). u * v) (zip w x)) + b)
                  (zip (weight l) (bias l))))"

text \<open>\<open>mask.expand(b, v)\<close> of a 1-D mask: the mask must have \<open>v\<close> entries, or one.\<close>

definition expand_mask :: "'a list \<Rightarrow> nat \<Rightarrow> nat \<Rightarrow> error + 'a list list" where
  "expand_mask m b v =
     (if length m = v then Inr (replicate b m)
      else if length m = 1 then Inr (replicate b (replicate v (m ! 0)))
      else Inl RuntimeError)"

text \<open>
  Modelled from the spec: \<open>masked_log_softmax\<close> and \<open>masked_softmax\<close> are imported from
  \<open>allennlp.nn.util\<close>; their bodies are not in the repository. Per the spec (4.4) they
  normalise over the last axis under a mask that is broadcast over the batch; the
  normalisation of one row under its mask is the parameter \<open>row\<close>. A 2-D mask on 3-D
  scores applies row \<open>b\<close> of the mask to every timestep of batch element \<open>b\<close>.
\<close>

definition masked_rows3 ::
  "(real list \<Rightarrow> bool list \<Rightarrow> real list) \<Rightarrow> real list list list \<Rightarrow> bool list list
     \<Rightarrow> error + real list list list" where
  "masked_rows3 row vector msk =
     (if length msk = length vector \<and>
         (\<forall>(v, m) \<in> set (zip vector msk). \<forall>x \<in> set v. length x = length m)
      then Inr (map (\<lambda>(v, m). map (\<lambda>x. row x m) v) (zip vector msk))
      else Inl RuntimeError)"

definition masked_rows2 ::
  "(real list \<Rightarrow> bool list \<Rightarrow> real list) \<Rightarrow> real list list \<Rightarrow> bool list list
     \<Rightarrow> error + real list list" where
  "masked_rows2 row vector msk =
     (if map length msk = map length vector
      then Inr (map (\<lambda>(x, m). row x m) (zip vector msk))
      else Inl RuntimeError)"

section \<open>VideoEncoder\<close>

text \<open>\<open>_cat\<close>, the local function of \<open>_cat_directions\<close>.\<close>

definition cat :: "'a list list list \<Rightarrow> error + 'a list list list" where
  "cat s = torch_cat_dim2 (slice_step2 0 s) (slice_step2 1 s)"

text \<open>\<open>VideoEncoder._cat_directions\<close>.\<close>

definition cat_directions :: "state \<Rightarrow> error + state" where
  "cat_directions final_state =
     (case final_state of
        Tuple h c \<Rightarrow> ebind (cat h) (\<lambda>h'. ebind (cat c) (\<lambda>c'. Inr (Tuple h' c')))
      | Tensor s \<Rightarrow> ebind (cat s) (\<lambda>s'. Inr (Tensor s')))"

text \<open>
  \<open>VideoEncoder.forward\<close>. \<open>lsm\<close> is the row normalisation of \<open>masked_log_softmax\<close>. The result
  is the triple of the CTC mode, with no \<open>output_log_probs\<close> when CTC is disabled. The
  recurrent layer takes 3-D input, so a frame processing other than flatten, which
  leaves the frames 4-D, raises.
\<close>

definition VideoEncoder_forward ::
  "(real list \<Rightarrow> bool list \<Rightarrow> real list) \<Rightarrow> VideoEncoder \<Rightarrow> real list list list list \<Rightarrow> int list
     \<Rightarrow> error + (real list list list option \<times> real list list list \<times> state)" where
  "VideoEncoder_forward lsm self frames frame_lens =
     ebind (if frame_processing self = ''flatten'' then reshape_flatten frames
            else Inl RuntimeError) (\<lambda>frames1.
     ebind (sort_batch_by_length frames1 frame_lens)
       (\<lambda>(sorted_frames, sorted_frame_lens, restoration_indices, permutation_index).
     ebind (pack_padded_sequence sorted_frames sorted_frame_lens) (\<lambda>packed_frames.
     let outs = map (enc_rnn self) packed_frames;
         slots = enc_num_layers self * (if bidirectional self then 2 else 1);
         h_n = stack_slots slots (map (\<lambda>r. fst (snd r)) outs);
         c_n = stack_slots slots (map (\<lambda>r. snd (snd r)) outs);
         final_state0 = (if enc_rnn_type self = ''LSTM'' then Tuple h_n c_n else Tensor h_n);
         hidden_states0 =
           pad_packed_sequence ((if bidirectional self then 2 else 1) * enc_hidden_size self)
             (map fst outs)
     in
     ebind (if bidirectional self then cat_directions final_state0 else Inr final_state0)
       (\<lambda>final_state1.
     ebind (index_select hidden_states0 restoration_indices) (\<lambda>hidden_states.
     ebind (case final_state1 of
              Tuple h c \<Rightarrow>
                ebind (index_select1 h restoration_indices) (\<lambda>h'.
                ebind (index_select1 c restoration_indices) (\<lambda>c'. Inr (Tuple h' c')))
            | Tensor s \<Rightarrow> ebind (index_select1 s restoration_indices) (\<lambda>s'. Inr (Tensor s')))
       (\<lambda>final_state.
     if enable_ctc self then
       (case ctc self of
          None \<Rightarrow> Inl AttributeError
        | Some head \<Rightarrow>
            ebind (emap (emap (Linear_forward (ctc_output_proj head))) hidden_states)
              (\<lambda>output_logits.
            ebind (expand_mask (ctc_output_mask head) (length output_logits)
                     (nat (adj_vocab_size head))) (\<lambda>msk.
            ebind (masked_rows3 lsm output_logits msk) (\<lambda>output_log_probs.
            Inr (Some output_log_probs, hidden_states, final_state)))))
     else Inr (None, hidden_states, final_state)))))))"

section \<open>CharDecodingStep\<close>

text \<open>\<open>nn.Embedding.forward\<close>: the row of the table at each token; a token outside the table
  raises.\<close>

definition Embedding_forward :: "real list list \<Rightarrow> int list \<Rightarrow> error + real list list" where
  "Embedding_forward table input =
     emap (\<lambda>i. if 0 \<le> i \<and> i < int (length table) then Inr (table ! nat i) else Inl IndexError)
       input"

text \<open>
  \<open>torch.arange(en_seq_len).expand(batch_size, en_seq_len) < encoder_lens.unsqueeze(dim=1)\<close>:
  position \<open>t\<close> of row \<open>b\<close> is valid iff \<open>t < encoder_lens[b]\<close>. The comparison broadcasts a
  batch axis of size 1 on either side; other mismatches raise.
\<close>

definition encoder_mask_of :: "nat \<Rightarrow> nat \<Rightarrow> int list \<Rightarrow> error + bool list list" where
  "encoder_mask_of batch_size en_seq_len encoder_lens =
     (if length encoder_lens = batch_size \<or> batch_size = 1
      then Inr (map (\<lambda>l. map (\<lambda>t. int t < l) [0..<en_seq_len]) encoder_lens)
      else if length encoder_lens = 1
      then Inr (replicate batch_size (map (\<lambda>t. int t < encoder_lens ! 0) [0..<en_seq_len]))
      else Inl RuntimeError)"

text \<open>\<open>t.shape[1]\<close> of a 3-D tensor. A tensor with a zero-size axis carries no inner sizes in
  the nested-list representation; they are read as 0.\<close>

definition shape1 :: "'a list list \<Rightarrow> nat" where
  "shape1 t = (case t of [] \<Rightarrow> 0 | r # _ \<Rightarrow> length r)"

text \<open>
  \<open>hidden_state.expand_as(other)\<close> for the (batch, 1, hidden) step state: the state of a
  batch element is repeated at every timestep of \<open>other\<close>; an axis of size 1 is broadcast,
  any other size mismatch raises. Only the shape of \<open>other\<close> is read.
\<close>

definition expand_vec :: "'a list \<Rightarrow> nat \<Rightarrow> error + 'a list" where
  "expand_vec h n =
     (if length h = n then Inr h
      else if length h = 1 then Inr (replicate n (h ! 0))
      else Inl RuntimeError)"

definition expand_shape :: "'a list list \<Rightarrow> nat list list \<Rightarrow> error + 'a list list list" where
  "expand_shape hidden_state shp =
     (if length hidden_state = length shp
      then emap (\<lambda>(h, row). emap (expand_vec h) row) (zip hidden_state shp)
      else if length hidden_state = 1
      then emap (\<lambda>row. emap (expand_vec (hidden_state ! 0)) row) shp
      else Inl RuntimeError)"

definition expand_as :: "'a list list \<Rightarrow> 'b list list list \<Rightarrow> error + 'a list list list" where
  "expand_as hidden_state other = expand_shape hidden_state (map (map length) other)"

text \<open>Pointwise operations on two tensors of one shape (batch, seq, feature): a shape
  mismatch raises.\<close>

definition zip_rows ::
  "('a list \<Rightarrow> 'b list \<Rightarrow> error + 'c) \<Rightarrow> 'a list list list \<Rightarrow> 'b list list list
     \<Rightarrow> error + 'c list list" where
  "zip_rows f a b =
     (if map length a = map length b
      then emap (\<lambda>(x, y). emap (\<lambda>(u, v). f u v) (zip x y)) (zip a b)
      else Inl RuntimeError)"

definition dot :: "real list \<Rightarrow> real list \<Rightarrow> error + real" where
  "dot u v =
     (if length u = length v then Inr (sum_list (map (\<lambda>(x, y). x * y) (zip u v)))
      else Inl RuntimeError)"

text \<open>\<open>.squeeze(dim=-1)\<close> after a projection to one feature.\<close>

definition squeeze_last :: "'a list \<Rightarrow> error + 'a" where
  "squeeze_last v = (if length v = 1 then Inr (v ! 0) else Inl RuntimeError)"

definition the_layer :: "Linear option \<Rightarrow> error + Linear" where
  "the_layer l = (case l of None \<Rightarrow> Inl AttributeError | Some x \<Rightarrow> Inr x)"

text \<open>\<open>attn_weights.bmm(encoder_hidden_states).squeeze(dim=1)\<close> for one batch element: the
  sum of the timestep states weighted by the attention weights.\<close>

definition weighted_sum :: "real list \<Rightarrow> real list list \<Rightarrow> error + real list" where
  "weighted_sum w rows =
     (if length w = length rows
      then Inr (foldr (\<lambda>(wt, e) acc. map (\<lambda>(x, y). wt * x + y) (zip e acc)) (zip w rows)
                  (replicate (shape1 rows) 0))
      else Inl RuntimeError)"

definition bmm_context :: "real list list \<Rightarrow> real list list list \<Rightarrow> error + real list list" where
  "bmm_context attn_weights encoder_hidden_states =
     (if length attn_weights = length encoder_hidden_states
      then emap (\<lambda>(w, rows). weighted_sum w rows) (zip attn_weights encoder_hidden_states)
      else Inl RuntimeError)"

text \<open>\<open>torch.cat([a, b], dim=1)\<close> on 2-D tensors.\<close>

definition torch_cat_dim1 :: "'a list list \<Rightarrow> 'a list list \<Rightarrow> error + 'a list list" where
  "torch_cat_dim1 a b =
     (if length a = length b then Inr (map (\<lambda>(x, y). x @ y) (zip a b)) else Inl RuntimeError)"

text \<open>
  \<open>CharDecodingStep.forward\<close>. \<open>sm\<close> and \<open>lsm\<close> are the row normalisations of
  \<open>masked_softmax\<close> and \<open>masked_log_softmax\<close>. The attention scores are computed per
  encoder timestep; \<open>view\<close> and \<open>bmm\<close> of the general variant are the dot product of the
  projected step state with the timestep state, both of width \<open>hidden_size\<close>.
\<close>

definition attn_logits_of ::
  "CharDecodingStep \<Rightarrow> real list list list \<Rightarrow> real list list list \<Rightarrow> error + real list list"
  where
  "attn_logits_of self encoder_hidden_states expanded_hidden_state =
     (if attention_type self = ''1_layer_nn'' then
        ebind (the_layer (attn_proj_1_layer_nn self)) (\<lambda>proj.
        zip_rows (\<lambda>e h. ebind (Linear_forward proj (e @ h)) squeeze_last)
          encoder_hidden_states expanded_hidden_state)
      else if attention_type self = ''general'' then
        ebind (the_layer (attn_proj_general self)) (\<lambda>proj.
        zip_rows (\<lambda>e h. ebind (Linear_forward proj h) (\<lambda>i.
            if length i = dec_hidden_size self \<and> length e = dec_hidden_size self
            then dot i e else Inl RuntimeError))
          encoder_hidden_states expanded_hidden_state)
      else if attention_type self = ''dot'' then
        zip_rows (\<lambda>e h. dot h e) encoder_hidden_states expanded_hidden_state
      else if attention_type self = ''concat'' then
        ebind (the_layer (attn_proj_layer1 self)) (\<lambda>proj1.
        ebind (the_layer (attn_proj_layer2 self)) (\<lambda>proj2.
        zip_rows (\<lambda>e h. ebind (Linear_forward proj1 (e @ h)) (\<lambda>a.
            ebind (Linear_forward proj2 (map tanh a)) squeeze_last))
          encoder_hidden_states expanded_hidden_state))
      else Inl UnboundLocalError)"

definition CharDecodingStep_forward ::
  "(real list \<Rightarrow> bool list \<Rightarrow> real list) \<Rightarrow> (real list \<Rightarrow> bool list \<Rightarrow> real list)
     \<Rightarrow> CharDecodingStep \<Rightarrow> int list \<Rightarrow> state \<Rightarrow> int list \<Rightarrow> real list list list
     \<Rightarrow> error + (real list list \<times> state)" where
  "CharDecodingStep_forward sm lsm self input previous_state encoder_lens encoder_hidden_states =
     (let batch_size = length input;
          en_seq_len = shape1 encoder_hidden_states
      in
      ebind (encoder_mask_of batch_size en_seq_len encoder_lens) (\<lambda>encoder_mask.
      ebind (Embedding_forward (embedding self) input) (\<lambda>embedded_char.
      ebind (dec_rnn self embedded_char previous_state) (\<lambda>(hidden_state, final_state).
      ebind (expand_as hidden_state encoder_hidden_states) (\<lambda>expanded_hidden_state.
      ebind
        (if attention_type self \<noteq> ''none'' then
           ebind (attn_logits_of self encoder_hidden_states expanded_hidden_state)
             (\<lambda>attn_logits.
           ebind (masked_rows2 sm attn_logits encoder_mask) (\<lambda>attn_weights.
           ebind (bmm_context attn_weights encoder_hidden_states) (\<lambda>context.
           ebind (torch_cat_dim1 context hidden_state) (\<lambda>cat_state.
           ebind (emap (Linear_forward (concat_layer self)) cat_state) (\<lambda>new_hidden_state.
           emap (Linear_forward (output_proj self)) (map (map tanh) new_hidden_state))))))
         else emap (Linear_forward (output_proj self)) hidden_state) (\<lambda>output_logits.
      ebind (expand_mask (output_mask self) batch_size (nat (vocab_size self))) (\<lambda>msk.
      ebind (masked_rows2 lsm output_logits msk) (\<lambda>output_log_probs.
      Inr (output_log_probs, final_state)))))))))"

text \<open>The contract of the Masked Normalization Primitive on masked positions: at every
  masked position of a row the result has the property \<open>Z\<close> (zero probability).\<close>

definition masks_out ::
  "(real \<Rightarrow> bool) \<Rightarrow> (real list \<Rightarrow> bool list \<Rightarrow> real list) \<Rightarrow> bool" where
  "masks_out Z row =
     (\<forall>x m i. length x = length m \<longrightarrow> i < length m \<longrightarrow> \<not> m ! i \<longrightarrow> Z (row x m ! i))"

section \<open>Names for parts of VideoEncoder.forward\<close>

text \<open>The following definitions name subterms of \<open>forward\<close> and the values its results
  are compared with; they add nothing to the model.\<close>

definition enc_width :: "VideoEncoder \<Rightarrow> nat" where
  "enc_width self = (if bidirectional self then 2 else 1) * enc_hidden_size self"

definition enc_state0 :: "VideoEncoder \<Rightarrow> real list list list \<Rightarrow> state" where
  "enc_state0 self packed =
     (let outs = map (enc_rnn self) packed;
          slots = enc_num_layers self * (if bidirectional self then 2 else 1)
      in if enc_rnn_type self = ''LSTM''
         then Tuple (stack_slots slots (map (\<lambda>r. fst (snd r)) outs))
                (stack_slots slots (map (\<lambda>r. snd (snd r)) outs))
         else Tensor (stack_slots slots (map (\<lambda>r. fst (snd r)) outs)))"

definition restore_state :: "state \<Rightarrow> nat list \<Rightarrow> error + state" where
  "restore_state fs ri =
     (case fs of
        Tuple h c \<Rightarrow>
          ebind (index_select1 h ri) (\<lambda>h'. ebind (index_select1 c ri) (\<lambda>c'. Inr (Tuple h' c')))
      | Tensor s \<Rightarrow> ebind (index_select1 s ri) (\<lambda>s'. Inr (Tensor s')))"

definition unpadded :: "real list list list list \<Rightarrow> int list \<Rightarrow> real list list list" where
  "unpadded frames frame_lens =
     map (\<lambda>(s, l). take (nat l) s) (zip (map (map concat) frames) frame_lens)"

definition joined :: "nat \<Rightarrow> real list list list \<Rightarrow> real list list list" where
  "joined L F = map (\<lambda>l. map (\<lambda>f. f ! (2 * l) @ f ! (2 * l + 1)) F) [0..<L]"

section \<open>Example values\<close>

definition rnn0 :: "real list list \<Rightarrow> real list list \<times> real list list \<times> real list list" where
  "rnn0 xs = (map (\<lambda>x. [sum_list x, - sum_list x]) xs,
              [[sum_list (concat xs)], [- sum_list (concat xs)]], [[0], [0]])"

definition enc0 :: VideoEncoder where
  "enc0 = \<lparr>frame_dim = 2, enc_hidden_size = 1, frame_processing = ''flatten'',
            enc_rnn_type = ''GRU'', enc_num_layers = 1, bidirectional = True,
            enc_rnn_dropout = 0, enable_ctc = False, enc_best_error = 1, ctc = None,
            enc_rnn = rnn0\<rparr>"

definition c2i0 :: "string \<rightharpoonup> int" where
  "c2i0 = [''<pad>'' \<mapsto> 0, ''<bos>'' \<mapsto> 1, ''a'' \<mapsto> 2]"

definition dec_weights0 :: dec_weights where
  "dec_weights0 =
     \<lparr>w_embedding = [[0], [1], [2]],
      w_rnn = (\<lambda>xs st. Inr (map (\<lambda>x. [sum_list x, 1]) xs, st)),
      w_attn_proj_1_layer_nn = ([], []), w_attn_proj_general = ([], []),
      w_attn_proj_layer1 = ([], []), w_attn_proj_layer2 = ([], []),
      w_concat_layer = ([[1, 0, 0, 0], [0, 1, 0, 0]], [0, 0]),
      w_output_proj = ([[1, 0], [0, 1], [1, 1]], [0, 0, 0])\<rparr>"

definition dec0 :: CharDecodingStep where
  "dec0 = \<lparr>dec_hidden_size = 2, dec_rnn_type = ''GRU'', dec_num_layers = 1,
            dec_rnn_dropout = 0, char_dim = 1, vocab_size = 3, char2idx = c2i0,
            attention_type = ''none'', output_mask = [False, False, True],
            embedding = w_embedding dec_weights0, dec_rnn = w_rnn dec_weights0,
            attn_proj_1_layer_nn = None, attn_proj_general = None,
            attn_proj_layer1 = None, attn_proj_layer2 = None,
            concat_layer = nn_Linear 4 2 (w_concat_layer dec_weights0),
            output_proj = nn_Linear 2 3 (w_output_proj dec_weights0),
            dec_best_error = 1\<rparr>"

definition frames0 :: "real list list list list" where
  "frames0 = [[[[1, 2]], [[9, 9]], [[7, 7]]], [[[3, 4]], [[5, 6]], [[8, 8]]]]"

definition rnn1 :: "real list list \<Rightarrow> real list list \<times> real list list \<times> real list list" where
  "rnn1 xs = (map (\<lambda>x. [sum_list x]) xs, [[sum_list (concat xs)]], [[0]])"

definition enc1 :: VideoEncoder where
  "enc1 = enc0\<lparr>bidirectional := False, enc_rnn := rnn1\<rparr>"

definition frames0' :: "real list list list list" where
  "frames0' = [[[[1, 2]], [[0, 0]], [[5, 5]]], [[[3, 4]], [[5, 6]], [[8, 8]]]]"

definition ehs0 :: "real list list list" where
  "ehs0 = [[[1, 2], [3, 4]]]"

definition ehs0' :: "real list list list" where
  "ehs0' = [[[9, 9], [7, 7]]]"

definition lsm0 :: "real list \<Rightarrow> bool list \<Rightarrow> real list" where
  "lsm0 x m = map (\<lambda>(v, b). if b then v else - 1000) (zip x m)"

definition enc_ctc0 :: VideoEncoder where
  "enc_ctc0 = enc0\<lparr>enable_ctc := True,
      ctc := Some \<lparr>ctc_vocab_size = 3, adj_vocab_size = 4, ctc_char2idx = c2i0, num_dirs = 2,
                   ctc_output_mask = [True, False, False, True],
                   ctc_output_proj =
                     nn_Linear 2 4 ([[1, 0], [0, 1], [1, 1], [0, 0]], [0, 0, 0, 0])\<rparr>\<rparr>"

text \<open>An exact masked softmax of one row over the reals, for the examples: \<open>exp\<close> at the
  valid positions, zero at the others, divided by the sum.\<close>

definition sm0 :: "real list \<Rightarrow> bool list \<Rightarrow> real list" where
  "sm0 x m =
     (let e = map (\<lambda>(v, b). if b then exp v else 0) (zip x m)
      in map (\<lambda>v. v / sum_list e) e)"

definition dec_dot :: CharDecodingStep where
  "dec_dot = dec0\<lparr>attention_type := ''dot''\<rparr>"

definition ehs1 :: "real list list list" where
  "ehs1 = [[[1, 2], [2, 0]]]"

definition enc_world0 :: "enc_params world" where
  "enc_world0 = \<lparr>dirs = {''runs'', ''runs/best''}, files = Map.empty, stdout = []\<rparr>"

definition dec_world0 :: "dec_params world" where
  "dec_world0 = \<lparr>dirs = {''runs'', ''runs/best''}, files = Map.empty, stdout = []\<rparr>"

section \<open>Auxiliary facts on the error monad, sorting and slots\<close>

lemma ebind_Inr_iff: "ebind m f = Inr y \<longleftrightarrow> (\<exists>x. m = Inr x \<and> f x = Inr y)"
  by (cases m) (simp_all add: ebind_def)

lemma ebind_Inr [simp]: "ebind (Inr x) f = f x"
  by (simp add: ebind_def)

lemma ebind_Inl [simp]: "ebind (Inl e) f = Inl e"
  by (simp add: ebind_def)

lemma sorted_rev_neg:
  fixes g :: "'a \<Rightarrow> int"
  shows "sorted (map (\<lambda>i. - g i) xs) \<Longrightarrow> sorted (rev (map g xs))"
  by (induction xs) (auto simp: sorted_append)

lemma argsort_inverse:
  assumes d: "distinct p" and s: "set p = {0..<n}" and l: "length p = n"
  shows "map (\<lambda>j. p ! j) (sort_key (\<lambda>j. p ! j) [0..<n]) = [0..<n]"
proof (rule sorted_distinct_set_unique)
  let ?L = "map (\<lambda>j. p ! j) (sort_key (\<lambda>j. p ! j) [0..<n])"
  show "sorted ?L" by (rule sorted_sort_key)
  have set_eq: "set ?L = {0..<n}"
  proof -
    have "set ?L = (\<lambda>j. p ! j) ` {0..<n}" by simp
    also have "\<dots> = set p" using l by (auto simp: set_conv_nth)
    finally show ?thesis using s by simp
  qed
  have "card (set ?L) = length ?L" using set_eq by simp
  then show "distinct ?L" by (rule card_distinct)
  show "sorted [0..<n]" by simp
  show "distinct [0..<n]" by simp
  show "set ?L = set [0..<n]" using set_eq by simp
qed

lemma restore_nth:
  assumes d: "distinct p" and s: "set p = {0..<n}" and l: "length p = n" and ly: "length ys = n"
  shows "map (\<lambda>k. map (\<lambda>i. ys ! i) p ! k) (sort_key (\<lambda>j. p ! j) [0..<n]) = ys"
proof -
  let ?r = "sort_key (\<lambda>j. p ! j) [0..<n]"
  have "map (\<lambda>k. map (\<lambda>i. ys ! i) p ! k) ?r = map (\<lambda>k. ys ! (p ! k)) ?r"
    using l by (intro map_cong) auto
  also have "\<dots> = map (\<lambda>i. ys ! i) (map (\<lambda>j. p ! j) ?r)" by (simp add: comp_def)
  also have "\<dots> = map (\<lambda>i. ys ! i) [0..<n]" by (simp only: argsort_inverse [OF d s l])
  also have "\<dots> = ys" unfolding ly [symmetric] by (rule map_nth)
  finally show ?thesis .
qed

lemma index_select_restore:
  assumes d: "distinct p" and s: "set p = {0..<n}" and l: "length p = n" and ly: "length ys = n"
  shows "index_select (map (\<lambda>i. ys ! i) p) (sort_key (\<lambda>j. p ! j) [0..<n]) = Inr ys"
  using restore_nth [OF d s l ly] l by (simp add: index_select_def)

lemma sort_batch_by_length_props:
  assumes "sort_batch_by_length t lens = Inr (st, sl, ri, perm)"
  shows "length lens = length t" "distinct perm" "set perm = {0..<length t}"
    "length perm = length t"
    "st = map (\<lambda>i. t ! i) perm" "sl = map (\<lambda>i. lens ! i) perm"
    "ri = sort_key (\<lambda>j. perm ! j) [0..<length t]" "sorted (rev sl)"
  using assms
  by (auto simp: sort_batch_by_length_def Let_def sorted_rev_neg split: if_splits)

lemma pad_packed_perm:
  assumes s: "set p = {0..<length zs}"
  shows "pad_packed_sequence w (map (\<lambda>i. zs ! i) p) = map (\<lambda>i. pad_packed_sequence w zs ! i) p"
proof -
  have "set (map (\<lambda>i. zs ! i) p) = (\<lambda>i. zs ! i) ` {0..<length zs}"
    using s by simp
  also have "\<dots> = set (map (\<lambda>i. zs ! i) [0..<length zs])" by simp
  also have "\<dots> = set zs" by (simp only: map_nth)
  finally have "set (map (\<lambda>i. zs ! i) p) = set zs" .
  then have "set (map length (map (\<lambda>i. zs ! i) p)) = set (map length zs)"
    by (metis set_map)
  then show ?thesis
    using s by (auto simp: pad_packed_sequence_def)
qed

lemma stack_slots_perm:
  assumes s: "set p \<subseteq> {0..<length F}"
  shows "stack_slots n (map (\<lambda>i. F ! i) p) = map (\<lambda>row. map (\<lambda>i. row ! i) p) (stack_slots n F)"
  using s by (auto simp: stack_slots_def)

lemma emap_Inr_map:
  "(\<And>x. x \<in> set xs \<Longrightarrow> f x = Inr (g x)) \<Longrightarrow> emap f xs = Inr (map g xs)"
  by (induction xs) simp_all

lemma emap_Inr_length: "emap f xs = Inr ys \<Longrightarrow> length ys = length xs"
  by (induction xs arbitrary: ys) (auto simp: ebind_Inr_iff)

lemma emap_Inr_nth: "emap f xs = Inr ys \<Longrightarrow> i < length xs \<Longrightarrow> f (xs ! i) = Inr (ys ! i)"
  by (induction xs arbitrary: ys i) (auto simp: ebind_Inr_iff nth_Cons split: nat.splits)

lemma evens_upt: "filter (\<lambda>i. i mod 2 = 0) [0..<2 * L] = map (\<lambda>l. 2 * l) [0..<L]"
  by (induction L) auto

lemma odds_upt: "filter (\<lambda>i. (i - Suc 0) mod 2 = 0) [Suc 0..<2 * L] = map (\<lambda>l. 2 * l + 1) [0..<L]"
proof (induction L)
  case 0
  then show ?case by simp
next
  case (Suc L)
  have "[Suc 0..<2 * Suc L] = [Suc 0..<2 * L] @ (if L = 0 then [1] else [2 * L, 2 * L + 1])"
    by simp
  moreover have "(2 * L - Suc 0) mod 2 = 0 \<longleftrightarrow> L = 0" by presburger
  ultimately show ?case using Suc.IH
    by (simp add: mod_Suc)
qed

lemma slice_step2_even:
  "length s = 2 * L \<Longrightarrow> slice_step2 0 s = map (\<lambda>l. s ! (2 * l)) [0..<L]"
  by (simp add: slice_step2_def evens_upt comp_def)

lemma slice_step2_odd:
  "length s = 2 * L \<Longrightarrow> slice_step2 (Suc 0) s = map (\<lambda>l. s ! (2 * l + 1)) [0..<L]"
  by (simp add: slice_step2_def odds_upt comp_def)



lemma cat_even_length:
  assumes l: "length s = 2 * L"
    and r: "\<And>l. l < L \<Longrightarrow> length (s ! (2 * l)) = length (s ! (2 * l + 1))"
  shows "cat s = Inr (map (\<lambda>l. map (\<lambda>(u, v). u @ v) (zip (s ! (2 * l)) (s ! (2 * l + 1)))) [0..<L])"
proof -
  have "\<forall>(x, y) \<in> set (zip (map (\<lambda>l. s ! (2 * l)) [0..<L]) (map (\<lambda>l. s ! (2 * l + 1)) [0..<L])).
          length x = length y"
    using r by (auto simp: zip_map_map set_zip)
  then show ?thesis
    by (simp add: cat_def torch_cat_dim2_def slice_step2_even [OF l] slice_step2_odd [OF l]
        zip_map_map zip_same_conv_map)
qed

lemma cat_stack_slots:
  "cat (stack_slots (L * 2) F) =
     Inr (map (\<lambda>l. map (\<lambda>f. f ! (2 * l) @ f ! (2 * l + 1)) F) [0..<L])"
proof -
  have len: "length (stack_slots (L * 2) F) = 2 * L" by (simp add: stack_slots_def)
  have "cat (stack_slots (L * 2) F) =
      Inr (map (\<lambda>l. map (\<lambda>(u, v). u @ v)
            (zip (stack_slots (L * 2) F ! (2 * l)) (stack_slots (L * 2) F ! (2 * l + 1)))) [0..<L])"
    by (rule cat_even_length [OF len]) (simp add: stack_slots_def)
  also have "\<dots> = Inr (map (\<lambda>l. map (\<lambda>f. f ! (2 * l) @ f ! (2 * l + 1)) F) [0..<L])"
    by (simp add: stack_slots_def zip_map_map zip_same_conv_map)
  finally show ?thesis .
qed


lemma restore_rows:
  assumes d: "distinct p" and s: "set p = {0..<n}" and l: "length p = n" and lF: "length F = n"
  shows "index_select1 (map (\<lambda>k. map (g k) (map (\<lambda>i. F ! i) p)) ks)
           (sort_key (\<lambda>j. p ! j) [0..<n]) = Inr (map (\<lambda>k. map (g k) F) ks)"
proof -
  have row: "index_select (map (g k) (map (\<lambda>i. F ! i) p)) (sort_key (\<lambda>j. p ! j) [0..<n])
      = Inr (map (g k) F)" for k
  proof -
    have "map (g k) (map (\<lambda>i. F ! i) p) = map (\<lambda>i. map (g k) F ! i) p"
      using s lF by auto
    moreover have "index_select (map (\<lambda>i. map (g k) F ! i) p) (sort_key (\<lambda>j. p ! j) [0..<n])
        = Inr (map (g k) F)"
      by (rule index_select_restore [OF d s l]) (simp add: lF)
    ultimately show ?thesis by (simp only:)
  qed
  have "emap (\<lambda>r. index_select r (sort_key (\<lambda>j. p ! j) [0..<n]))
          (map (\<lambda>k. map (g k) (map (\<lambda>i. F ! i) p)) ks)
        = Inr (map (\<lambda>k. map (g k) F) ks)"
    by (induction ks) (simp_all add: row del: map_map)
  then show ?thesis by (simp add: index_select1_def)
qed

lemma pack_sorted_batch:
  assumes sb: "sort_batch_by_length fr lens = Inr (st, sl, ri, perm)"
    and pk: "pack_padded_sequence st sl = Inr packed"
  shows "packed = map (\<lambda>i. map (\<lambda>(s, l). take (nat l) s) (zip fr lens) ! i) perm"
    and "fr \<noteq> []"
    and "\<forall>b<length fr. 1 \<le> lens ! b \<and> lens ! b \<le> int (length (fr ! b))"
proof -
  note p = sort_batch_by_length_props [OF sb]
  have st: "st = map (\<lambda>i. fr ! i) perm" and sl: "sl = map (\<lambda>i. lens ! i) perm"
    using p by simp_all
  have inr: "\<forall>i\<in>set perm. i < length fr \<and> i < length lens" using p by simp
  have nonempty: "st \<noteq> []" and ok: "\<forall>(s, l)\<in>set (zip st sl). \<not> (l < 1 \<or> int (length s) < l)"
    and packed: "packed = map (\<lambda>(s, l). take (nat l) s) (zip st sl)"
    using pk by (auto simp: pack_padded_sequence_def split: if_splits)
  show "packed = map (\<lambda>i. map (\<lambda>(s, l). take (nat l) s) (zip fr lens) ! i) perm"
    using inr by (simp add: packed st sl zip_map_map zip_same_conv_map)
  show "fr \<noteq> []" using nonempty p by auto
  show "\<forall>b<length fr. 1 \<le> lens ! b \<and> lens ! b \<le> int (length (fr ! b))"
  proof (intro allI impI)
    fix b assume b: "b < length fr"
    then have "b \<in> set perm" using p by simp
    then have "(fr ! b, lens ! b) \<in> set (zip st sl)"
      by (auto simp: st sl zip_map_map zip_same_conv_map)
    with ok show "1 \<le> lens ! b \<and> lens ! b \<le> int (length (fr ! b))" by auto
  qed
qed

lemma forward_InrE:
  assumes "VideoEncoder_forward lsm self frames lens = Inr (olp, hs, fs)"
  obtains fr st sl ri perm packed fs1 where
    "frame_processing self = ''flatten''" "reshape_flatten frames = Inr fr"
    "sort_batch_by_length fr lens = Inr (st, sl, ri, perm)"
    "pack_padded_sequence st sl = Inr packed"
    "(if bidirectional self then cat_directions (enc_state0 self packed)
      else Inr (enc_state0 self packed)) = Inr fs1"
    "index_select (pad_packed_sequence (enc_width self) (map fst (map (enc_rnn self) packed))) ri
       = Inr hs"
    "restore_state fs1 ri = Inr fs"
  using assms
  unfolding VideoEncoder_forward_def enc_state0_def enc_width_def restore_state_def Let_def
  by (fastforce simp: ebind_Inr_iff split: if_splits option.splits)

lemma restore_stack:
  assumes d: "distinct p" and s: "set p = {0..<n}" and l: "length p = n" and lF: "length F = n"
  shows "index_select1 (stack_slots k (map (\<lambda>i. F ! i) p)) (sort_key (\<lambda>j. p ! j) [0..<n])
           = Inr (stack_slots k F)"
  unfolding stack_slots_def by (rule restore_rows [OF d s l lF])

lemma restore_joined:
  assumes d: "distinct p" and s: "set p = {0..<n}" and l: "length p = n" and lF: "length F = n"
  shows "index_select1 (joined L (map (\<lambda>i. F ! i) p)) (sort_key (\<lambda>j. p ! j) [0..<n])
           = Inr (joined L F)"
  unfolding joined_def by (rule restore_rows [OF d s l lF])

lemma cat_stack_joined: "cat (stack_slots (L * 2) F) = Inr (joined L F)"
  by (simp add: cat_stack_slots joined_def)

lemma map_nth_perm: "set p \<subseteq> {0..<length ys} \<Longrightarrow> map f (map (\<lambda>i. ys ! i) p) = map (\<lambda>i. map f ys ! i) p"
  by auto

lemma forward_result:
  assumes fw: "VideoEncoder_forward lsm self frames lens = Inr (olp, hs, fs)"
  defines "outs \<equiv> map (enc_rnn self) (unpadded frames lens)"
  defines "H \<equiv> map (\<lambda>r. fst (snd r)) outs" and "C \<equiv> map (\<lambda>r. snd (snd r)) outs"
  shows "hs = pad_packed_sequence (enc_width self) (map fst outs)"
    and "fs = (if bidirectional self
               then (if enc_rnn_type self = ''LSTM''
                     then Tuple (joined (enc_num_layers self) H) (joined (enc_num_layers self) C)
                     else Tensor (joined (enc_num_layers self) H))
               else (if enc_rnn_type self = ''LSTM''
                     then Tuple (stack_slots (enc_num_layers self) H)
                            (stack_slots (enc_num_layers self) C)
                     else Tensor (stack_slots (enc_num_layers self) H)))"
    and "length lens = length frames" and "frames \<noteq> []"
    and "\<forall>b<length frames. 1 \<le> lens ! b \<and> lens ! b \<le> int (length (frames ! b))"
proof -
  from fw obtain fr st sl ri perm packed fs1 where
    flat: "frame_processing self = ''flatten''" and fr: "reshape_flatten frames = Inr fr" and
    sb: "sort_batch_by_length fr lens = Inr (st, sl, ri, perm)" and
    pk: "pack_padded_sequence st sl = Inr packed" and
    cd: "(if bidirectional self then cat_directions (enc_state0 self packed)
      else Inr (enc_state0 self packed)) = Inr fs1" and
    hs: "index_select (pad_packed_sequence (enc_width self) (map fst (map (enc_rnn self) packed))) ri
       = Inr hs" and
    rs: "restore_state fs1 ri = Inr fs"
    by (rule forward_InrE)
  have fr_eq: "fr = map (map concat) frames"
    using fr by (simp add: reshape_flatten_def split: if_splits)
  note p = sort_batch_by_length_props [OF sb]
  note k = pack_sorted_batch [OF sb pk]
  let ?n = "length fr"
  have ys: "map (\<lambda>(s, l). take (nat l) s) (zip fr lens) = unpadded frames lens"
    by (simp add: unpadded_def fr_eq)
  have len_ys: "length (unpadded frames lens) = ?n"
    using p(1) by (simp add: unpadded_def fr_eq)
  have packed: "packed = map (\<lambda>i. unpadded frames lens ! i) perm"
    using k(1) ys by simp
  have sub: "set perm \<subseteq> {0..<length (unpadded frames lens)}"
    using p(3) len_ys by simp
  have outs_perm: "map (enc_rnn self) packed = map (\<lambda>i. outs ! i) perm"
    unfolding packed outs_def by (rule map_nth_perm [OF sub])
  have len_outs: "length outs = ?n" by (simp add: outs_def len_ys)
  have sub2: "set perm \<subseteq> {0..<length outs}" using p(3) len_outs by simp
  have ri: "ri = sort_key (\<lambda>j. perm ! j) [0..<?n]" by (rule p(7))
  show "length lens = length frames" using p(1) by (simp add: fr_eq)
  show "frames \<noteq> []" using k(2) by (simp add: fr_eq)
  show "\<forall>b<length frames. 1 \<le> lens ! b \<and> lens ! b \<le> int (length (frames ! b))"
    using k(3) by (simp add: fr_eq)
  show "hs = pad_packed_sequence (enc_width self) (map fst outs)"
  proof -
    have "map fst (map (enc_rnn self) packed) = map (\<lambda>i. map fst outs ! i) perm"
      unfolding outs_perm by (rule map_nth_perm [OF sub2])
    moreover have "set perm = {0..<length (map fst outs)}" using p(3) len_outs by simp
    ultimately have "pad_packed_sequence (enc_width self) (map fst (map (enc_rnn self) packed))
        = map (\<lambda>i. pad_packed_sequence (enc_width self) (map fst outs) ! i) perm"
      by (simp only: pad_packed_perm)
    moreover have "index_select
        (map (\<lambda>i. pad_packed_sequence (enc_width self) (map fst outs) ! i) perm) ri
        = Inr (pad_packed_sequence (enc_width self) (map fst outs))"
      unfolding ri
      by (rule index_select_restore [OF p(2) p(3) p(4)])
        (simp add: pad_packed_sequence_def len_outs)
    ultimately show ?thesis using hs by simp
  qed
  have Hp0: "map (\<lambda>r. fst (snd r)) (map (enc_rnn self) packed) = map (\<lambda>i. H ! i) perm"
    unfolding outs_perm H_def by (rule map_nth_perm [OF sub2])
  have Cp0: "map (\<lambda>r. snd (snd r)) (map (enc_rnn self) packed) = map (\<lambda>i. C ! i) perm"
    unfolding outs_perm C_def by (rule map_nth_perm [OF sub2])
  have Hp: "map ((\<lambda>r. fst (snd r)) \<circ> enc_rnn self) packed = map (\<lambda>i. H ! i) perm"
    using Hp0 by simp
  have Cp: "map ((\<lambda>r. snd (snd r)) \<circ> enc_rnn self) packed = map (\<lambda>i. C ! i) perm"
    using Cp0 by simp
  have lH: "length H = ?n" and lC: "length C = ?n" by (simp_all add: H_def C_def len_outs)
  note rst = restore_stack [OF p(2) p(3) p(4)] restore_joined [OF p(2) p(3) p(4)]
  show "fs = (if bidirectional self
               then (if enc_rnn_type self = ''LSTM''
                     then Tuple (joined (enc_num_layers self) H) (joined (enc_num_layers self) C)
                     else Tensor (joined (enc_num_layers self) H))
               else (if enc_rnn_type self = ''LSTM''
                     then Tuple (stack_slots (enc_num_layers self) H)
                            (stack_slots (enc_num_layers self) C)
                     else Tensor (stack_slots (enc_num_layers self) H)))"
    using cd rs
    by (auto simp: enc_state0_def Let_def Hp Cp cat_directions_def cat_stack_joined
        restore_state_def ri rst lH lC split: if_splits)
qed

section \<open>Properties of construction and of save_best_model\<close>

lemma enc0_init:
  "VideoEncoder_init ''<pad>'' ''<bos>'' rnn0 ([], []) 2 1 ''flatten'' ''GRU'' 1 True 0 False (-1) None
     = Inr enc0"
  by (simp add: VideoEncoder_init_def ALLOWED_FRAME_PROCESSING_def ALLOWED_RNN_TYPES_def
      ebind_def enc0_def)

lemma dec0_init:
  "CharDecodingStep_init ''<pad>'' ''<bos>'' dec_weights0 enc0 1 3 c2i0 0 ''none'' (-1) = Inr dec0"
  by (simp add: CharDecodingStep_init_def ALLOWED_ATTENTION_TYPES_def ebind_def torch_ones_def
      getitem_def setitem_def c2i0_def dec0_def enc0_def numeral_3_eq_3)

lemma VideoEncoder_init_best_error:
  "VideoEncoder_init PAD BOS rw pw fd hs fp rt nl bi dr ec vs c2i = Inr e \<Longrightarrow> enc_best_error e = 1"
  by (auto simp: VideoEncoder_init_def ebind_def split: if_splits sum.splits option.splits)

lemma CharDecodingStep_init_best_error:
  "CharDecodingStep_init PAD BOS ws enc cd vs c2i dr aty ah = Inr d \<Longrightarrow> dec_best_error d = 1"
  by (auto simp: CharDecodingStep_init_def ebind_def Let_def split: if_splits sum.splits)

lemma enc_save_cases:
  "enc_save_best_model self err p w = (self', w', r) \<Longrightarrow>
     (\<not> err < enc_best_error self \<and> self' = self \<and> w' = w \<and> r = None) \<or>
     (err < enc_best_error self \<and> self' = self\<lparr>enc_best_error := err\<rparr> \<and>
        ((r \<noteq> None \<and> files w' = files w \<and> stdout w' = stdout w) \<or>
         (r = None \<and> files w' = (files w)(p \<mapsto> enc_state_dict self') \<and>
            stdout w' = stdout w @ [(err, p)])))"
  by (auto simp: enc_save_best_model_def Let_def os_makedirs_def torch_save_def
      split: if_splits sum.splits)

lemma dec_save_cases:
  "dec_save_best_model self err p w = (self', w', r) \<Longrightarrow>
     (\<not> err < dec_best_error self \<and> self' = self \<and> w' = w \<and> r = None) \<or>
     (err < dec_best_error self \<and> self' = self\<lparr>dec_best_error := err\<rparr> \<and>
        ((r \<noteq> None \<and> files w' = files w \<and> stdout w' = stdout w) \<or>
         (r = None \<and> files w' = (files w)(p \<mapsto> dec_state_dict self') \<and>
            stdout w' = stdout w @ [(err, p)])))"
  by (auto simp: dec_save_best_model_def Let_def os_makedirs_def torch_save_def
      split: if_splits sum.splits)

lemma enc_save_no_dirname:
  "err < enc_best_error self \<Longrightarrow> os_path_dirname p = [] \<Longrightarrow>
   enc_save_best_model self err p w = (self\<lparr>enc_best_error := err\<rparr>, w, Some FileNotFoundError)"
  by (simp add: enc_save_best_model_def os_path_exists_def os_makedirs_def)

lemma dec_save_no_dirname:
  "err < dec_best_error self \<Longrightarrow> os_path_dirname p = [] \<Longrightarrow>
   dec_save_best_model self err p w = (self\<lparr>dec_best_error := err\<rparr>, w, Some FileNotFoundError)"
  by (simp add: dec_save_best_model_def os_path_exists_def os_makedirs_def)

text \<open>
  What \<open>save_best_model\<close> does in both components, whatever the file system: \<open>best_error\<close>
  starts at 1; a call sets it to \<open>error\<close> exactly when \<open>error < best_error\<close>, so it never
  rises; on a tie or a larger error the component and the world are unchanged and nothing
  is raised; the checkpoint files change only on a strict improvement, and a call that
  returns from a strict improvement leaves the parameters at \<open>file_path\<close>; no attribute other
  than \<open>best_error\<close> changes.
\<close>

lemma save_policy_returning:
  "(VideoEncoder_init PAD BOS rw pw fd hs fp rt nl bi dr ec vs c2i = Inr e0 \<longrightarrow> enc_best_error e0 = 1) \<and>
   (CharDecodingStep_init PAD BOS ws enc cd dvs dc2i ddr aty ah = Inr d0 \<longrightarrow> dec_best_error d0 = 1) \<and>
   (enc_save_best_model e err p w = (e', w', r) \<longrightarrow>
      enc_best_error e' = (if err < enc_best_error e then err else enc_best_error e) \<and>
      enc_best_error e' \<le> enc_best_error e \<and>
      e' = e\<lparr>enc_best_error := enc_best_error e'\<rparr> \<and>
      (\<not> err < enc_best_error e \<longrightarrow> e' = e \<and> w' = w \<and> r = None) \<and>
      (files w' \<noteq> files w \<longrightarrow> err < enc_best_error e) \<and>
      (err < enc_best_error e \<and> r = None \<longrightarrow> files w' p = Some (enc_state_dict e'))) \<and>
   (dec_save_best_model d err p v = (d', v', r') \<longrightarrow>
      dec_best_error d' = (if err < dec_best_error d then err else dec_best_error d) \<and>
      dec_best_error d' \<le> dec_best_error d \<and>
      d' = d\<lparr>dec_best_error := dec_best_error d'\<rparr> \<and>
      (\<not> err < dec_best_error d \<longrightarrow> d' = d \<and> v' = v \<and> r' = None) \<and>
      (files v' \<noteq> files v \<longrightarrow> err < dec_best_error d) \<and>
      (err < dec_best_error d \<and> r' = None \<longrightarrow> files v' p = Some (dec_state_dict d')))"
proof (intro conjI impI)
  assume "VideoEncoder_init PAD BOS rw pw fd hs fp rt nl bi dr ec vs c2i = Inr e0"
  then show "enc_best_error e0 = 1" by (rule VideoEncoder_init_best_error)
next
  assume "CharDecodingStep_init PAD BOS ws enc cd dvs dc2i ddr aty ah = Inr d0"
  then show "dec_best_error d0 = 1" by (rule CharDecodingStep_init_best_error)
next
  assume a: "enc_save_best_model e err p w = (e', w', r)"
  note c = enc_save_cases [OF a]
  from c show "enc_best_error e' = (if err < enc_best_error e then err else enc_best_error e)"
    by auto
  from c show "enc_best_error e' \<le> enc_best_error e" by auto
  from c show "e' = e\<lparr>enc_best_error := enc_best_error e'\<rparr>" by auto
  from c show "e' = e" if "\<not> err < enc_best_error e" using that by auto
  from c show "w' = w" if "\<not> err < enc_best_error e" using that by auto
  from c show "r = None" if "\<not> err < enc_best_error e" using that by auto
  from c show "err < enc_best_error e" if "files w' \<noteq> files w" using that by auto
  from c show "files w' p = Some (enc_state_dict e')" if "err < enc_best_error e \<and> r = None"
    using that by auto
next
  assume a: "dec_save_best_model d err p v = (d', v', r')"
  note c = dec_save_cases [OF a]
  from c show "dec_best_error d' = (if err < dec_best_error d then err else dec_best_error d)"
    by auto
  from c show "dec_best_error d' \<le> dec_best_error d" by auto
  from c show "d' = d\<lparr>dec_best_error := dec_best_error d'\<rparr>" by auto
  from c show "d' = d" if "\<not> err < dec_best_error d" using that by auto
  from c show "v' = v" if "\<not> err < dec_best_error d" using that by auto
  from c show "r' = None" if "\<not> err < dec_best_error d" using that by auto
  from c show "err < dec_best_error d" if "files v' \<noteq> files v" using that by auto
  from c show "files v' p = Some (dec_state_dict d')" if "err < dec_best_error d \<and> r' = None"
    using that by auto
qed

lemma save_returning_iff:
  "enc_save_best_model e err p w = (e', w', None) \<Longrightarrow>
     (err < enc_best_error e) =
       (e' = e\<lparr>enc_best_error := err\<rparr> \<and> files w' = (files w)(p \<mapsto> enc_state_dict e') \<and>
        stdout w' = stdout w @ [(err, p)])"
  "dec_save_best_model d err p v = (d', v', None) \<Longrightarrow>
     (err < dec_best_error d) =
       (d' = d\<lparr>dec_best_error := err\<rparr> \<and> files v' = (files v)(p \<mapsto> dec_state_dict d') \<and>
        stdout v' = stdout v @ [(err, p)])"
  using enc_save_cases [of e err p w e' w' None] dec_save_cases [of d err p v d' v' None]
  by auto

text \<open>
  C6 says that a call \<open>save_best_model(error, path)\<close> with \<open>error < best_error\<close> updates
  \<open>best_error\<close> and writes a checkpoint. The code misses the path without a directory
  component: on a freshly constructed component (\<open>best_error = 1\<close>) the call
  \<open>save_best_model(0.5, "model.pt")\<close> takes \<open>os.path.dirname\<close> to the empty string, which
  \<open>os.path.exists\<close> does not find and \<open>os.makedirs\<close> refuses, so the call raises
  \<open>FileNotFoundError\<close> with \<open>best_error\<close> lowered to 0.5 and nothing written; the same
  improvement offered again under a path that can be written, \<open>"runs/model.pt"\<close>, is then a
  tie and writes nothing either. From the fresh component that second path is written, in
  the encoder and in the decoding step alike.
\<close>

theorem save_best_model_bare_file_name:
  "VideoEncoder_init ''<pad>'' ''<bos>'' rnn0 ([], []) 2 1 ''flatten'' ''GRU'' 1 True 0 False (-1) None
     = Inr enc0 \<and>
   CharDecodingStep_init ''<pad>'' ''<bos>'' dec_weights0 enc0 1 3 c2i0 0 ''none'' (-1) = Inr dec0 \<and>
   enc_best_error enc0 = 1 \<and> dec_best_error dec0 = 1 \<and>
   os_path_dirname ''model.pt'' = [] \<and>
   enc_save_best_model enc0 (1/2) ''model.pt'' enc_world0
     = (enc0\<lparr>enc_best_error := 1/2\<rparr>, enc_world0, Some FileNotFoundError) \<and>
   dec_save_best_model dec0 (1/2) ''model.pt'' dec_world0
     = (dec0\<lparr>dec_best_error := 1/2\<rparr>, dec_world0, Some FileNotFoundError) \<and>
   files enc_world0 = Map.empty \<and> files dec_world0 = Map.empty \<and>
   enc_save_best_model (enc0\<lparr>enc_best_error := 1/2\<rparr>) (1/2) ''runs/model.pt'' enc_world0
     = (enc0\<lparr>enc_best_error := 1/2\<rparr>, enc_world0, None) \<and>
   dec_save_best_model (dec0\<lparr>dec_best_error := 1/2\<rparr>) (1/2) ''runs/model.pt'' dec_world0
     = (dec0\<lparr>dec_best_error := 1/2\<rparr>, dec_world0, None) \<and>
   enc_save_best_model enc0 (1/2) ''runs/model.pt'' enc_world0
     = (enc0\<lparr>enc_best_error := 1/2\<rparr>,
        enc_world0\<lparr>files := [''runs/model.pt'' \<mapsto> enc_state_dict enc0],
                    stdout := [(1/2, ''runs/model.pt'')]\<rparr>, None) \<and>
   dec_save_best_model dec0 (1/2) ''runs/model.pt'' dec_world0
     = (dec0\<lparr>dec_best_error := 1/2\<rparr>,
        dec_world0\<lparr>files := [''runs/model.pt'' \<mapsto> dec_state_dict dec0],
                    stdout := [(1/2, ''runs/model.pt'')]\<rparr>, None)"
proof -
  have a: "enc_save_best_model enc0 (1/2) ''model.pt'' enc_world0
      = (enc0\<lparr>enc_best_error := 1/2\<rparr>, enc_world0, Some FileNotFoundError)"
    by (rule enc_save_no_dirname) (simp_all add: enc0_def os_path_dirname_def)
  have b: "dec_save_best_model dec0 (1/2) ''model.pt'' dec_world0
      = (dec0\<lparr>dec_best_error := 1/2\<rparr>, dec_world0, Some FileNotFoundError)"
    by (rule dec_save_no_dirname) (simp_all add: dec0_def os_path_dirname_def)
  have c: "enc_save_best_model (enc0\<lparr>enc_best_error := 1/2\<rparr>) (1/2) ''runs/model.pt'' enc_world0
      = (enc0\<lparr>enc_best_error := 1/2\<rparr>, enc_world0, None)"
    "dec_save_best_model (dec0\<lparr>dec_best_error := 1/2\<rparr>) (1/2) ''runs/model.pt'' dec_world0
      = (dec0\<lparr>dec_best_error := 1/2\<rparr>, dec_world0, None)"
    by (simp_all add: enc_save_best_model_def dec_save_best_model_def)
  have d: "enc_save_best_model enc0 (1/2) ''runs/model.pt'' enc_world0
      = (enc0\<lparr>enc_best_error := 1/2\<rparr>,
         enc_world0\<lparr>files := [''runs/model.pt'' \<mapsto> enc_state_dict enc0],
                     stdout := [(1/2, ''runs/model.pt'')]\<rparr>, None)"
    by (simp add: enc_save_best_model_def enc_world0_def os_path_dirname_def os_path_exists_def
        torch_save_def enc_state_dict_def enc0_def)
  have e: "dec_save_best_model dec0 (1/2) ''runs/model.pt'' dec_world0
      = (dec0\<lparr>dec_best_error := 1/2\<rparr>,
         dec_world0\<lparr>files := [''runs/model.pt'' \<mapsto> dec_state_dict dec0],
                     stdout := [(1/2, ''runs/model.pt'')]\<rparr>, None)"
    by (simp add: dec_save_best_model_def dec_world0_def os_path_dirname_def os_path_exists_def
        torch_save_def dec_state_dict_def dec0_def)
  have f: "enc_best_error enc0 = 1" "dec_best_error dec0 = 1"
    "os_path_dirname ''model.pt'' = []"
    "files enc_world0 = Map.empty" "files dec_world0 = Map.empty"
    by (simp_all add: enc0_def dec0_def os_path_dirname_def enc_world0_def dec_world0_def)
  from enc0_init dec0_init a b c d e f show ?thesis by simp
qed

text \<open>
  C10. In \<open>save_best_model\<close> of both components, when \<open>error < best_error\<close> and the call
  raises (the directory creation or the save failed), \<open>best_error\<close> is already \<open>error\<close> and
  no checkpoint was written and no notice printed. When \<open>file_path\<close> has no directory
  component, \<open>os.makedirs\<close> is called on the empty path and raises \<open>FileNotFoundError\<close>.
\<close>

theorem save_best_model_not_atomic:
  "(err < enc_best_error e \<and> enc_save_best_model e err p w = (e', w', Some ex) \<longrightarrow>
      enc_best_error e' = err \<and> files w' = files w \<and> stdout w' = stdout w) \<and>
   (err < enc_best_error e \<and> os_path_dirname p = [] \<longrightarrow>
      enc_save_best_model e err p w = (e\<lparr>enc_best_error := err\<rparr>, w, Some FileNotFoundError)) \<and>
   (err < dec_best_error d \<and> dec_save_best_model d err p v = (d', v', Some ex') \<longrightarrow>
      dec_best_error d' = err \<and> files v' = files v \<and> stdout v' = stdout v) \<and>
   (err < dec_best_error d \<and> os_path_dirname p = [] \<longrightarrow>
      dec_save_best_model d err p v = (d\<lparr>dec_best_error := err\<rparr>, v, Some FileNotFoundError))"
proof -
  have A: "enc_best_error e' = err \<and> files w' = files w \<and> stdout w' = stdout w"
    if a: "err < enc_best_error e \<and> enc_save_best_model e err p w = (e', w', Some ex)"
  proof -
    from a have "enc_save_best_model e err p w = (e', w', Some ex)" by simp
    from enc_save_cases [OF this] a show ?thesis by auto
  qed
  have B: "enc_save_best_model e err p w
      = (e\<lparr>enc_best_error := err\<rparr>, w, Some FileNotFoundError)"
    if "err < enc_best_error e \<and> os_path_dirname p = []"
    using that by (simp add: enc_save_no_dirname)
  have C: "dec_best_error d' = err \<and> files v' = files v \<and> stdout v' = stdout v"
    if a: "err < dec_best_error d \<and> dec_save_best_model d err p v = (d', v', Some ex')"
  proof -
    from a have "dec_save_best_model d err p v = (d', v', Some ex')" by simp
    from dec_save_cases [OF this] a show ?thesis by auto
  qed
  have D: "dec_save_best_model d err p v
      = (d\<lparr>dec_best_error := err\<rparr>, v, Some FileNotFoundError)"
    if "err < dec_best_error d \<and> os_path_dirname p = []"
    using that by (simp add: dec_save_no_dirname)
  from A B C D show ?thesis by blast
qed

theorem save_best_model_not_atomic_witness:
  "(1/2 :: real) < enc_best_error enc0 \<and> os_path_dirname ''model.pt'' = [] \<and>
   enc_save_best_model enc0 (1/2) ''model.pt'' enc_world0
     = (enc0\<lparr>enc_best_error := 1/2\<rparr>, enc_world0, Some FileNotFoundError) \<and>
   enc_best_error (enc0\<lparr>enc_best_error := 1/2\<rparr>) = 1/2 \<and>
   (1/2 :: real) < dec_best_error dec0 \<and>
   dec_save_best_model dec0 (1/2) ''model.pt'' dec_world0
     = (dec0\<lparr>dec_best_error := 1/2\<rparr>, dec_world0, Some FileNotFoundError) \<and>
   dec_best_error (dec0\<lparr>dec_best_error := 1/2\<rparr>) = 1/2"
proof -
  have h1: "(1/2 :: real) < enc_best_error enc0" by (simp add: enc0_def)
  have h2: "(1/2 :: real) < dec_best_error dec0" by (simp add: dec0_def)
  have h3: "os_path_dirname ''model.pt'' = []" by (simp add: os_path_dirname_def)
  note t = save_best_model_not_atomic [where e = enc0 and d = dec0 and err = "1/2"
      and p = "''model.pt''" and w = enc_world0 and v = dec_world0
      and e' = "enc0\<lparr>enc_best_error := 1/2\<rparr>" and w' = enc_world0
      and d' = "dec0\<lparr>dec_best_error := 1/2\<rparr>" and v' = dec_world0
      and ex = FileNotFoundError and ex' = FileNotFoundError]
  from t h1 h2 h3 show ?thesis by simp
qed

section \<open>The Sequence Reordering Utility and the encoder\<close>

lemma sort_batch_total:
  "length lens = length t \<Longrightarrow> \<exists>st sl ri perm. sort_batch_by_length t lens = Inr (st, sl, ri, perm)"
  by (simp add: sort_batch_by_length_def Let_def)

lemma sort_batch_restores:
  assumes sb: "sort_batch_by_length t lens = Inr (st, sl, ri, perm)"
  shows "index_select (map f st) ri = Inr (map f t)"
proof -
  note p = sort_batch_by_length_props [OF sb]
  have "map f st = map (\<lambda>i. map f t ! i) perm"
    using p(3) by (simp add: p(5))
  moreover have "index_select (map (\<lambda>i. map f t ! i) perm) ri = Inr (map f t)"
    unfolding p(7) by (rule index_select_restore [OF p(2) p(3) p(4)]) simp
  ultimately show ?thesis by simp
qed

lemma sort_batch_mset:
  assumes sb: "sort_batch_by_length t lens = Inr (st, sl, ri, perm)"
  shows "mset st = mset t"
proof -
  note p = sort_batch_by_length_props [OF sb]
  have "mset perm = mset [0..<length t]"
    using sb by (auto simp: sort_batch_by_length_def Let_def split: if_splits)
  then have "mset (map (\<lambda>i. t ! i) perm) = mset (map (\<lambda>i. t ! i) [0..<length t])"
    by (metis mset_map)
  then show ?thesis by (simp add: p(5) map_nth)
qed

text \<open>
  C3. \<open>sort_batch_by_length\<close> succeeds on a batch and a length vector of the same size; it
  returns the batch permuted by a permutation of the positions, the lengths permuted
  alike and in descending order, and restoration indices such that \<open>index_select\<close> with
  them gives back the batch, the lengths, and any tensor computed row by row on the sorted
  batch, in the original order. In \<open>VideoEncoder.forward\<close> the returned hidden states (and
  the final state) are those of the sequences in their original batch order.
\<close>

theorem sort_batch_round_trip:
  "(length lens = length t \<longrightarrow>
      (\<exists>st sl ri perm. sort_batch_by_length t lens = Inr (st, sl, ri, perm))) \<and>
   (sort_batch_by_length t lens = Inr (st, sl, ri, perm) \<longrightarrow>
      mset st = mset t \<and> st = map (\<lambda>i. t ! i) perm \<and> sl = map (\<lambda>i. lens ! i) perm \<and>
      sorted (rev sl) \<and> index_select st ri = Inr t \<and> index_select sl ri = Inr lens \<and>
      (\<forall>f :: 'a \<Rightarrow> 'b. index_select (map f st) ri = Inr (map f t))) \<and>
   (VideoEncoder_forward lsm self frames frame_lens = Inr (olp, hs, fs) \<longrightarrow>
      hs = pad_packed_sequence (enc_width self)
             (map (\<lambda>s. fst (enc_rnn self s)) (unpadded frames frame_lens)) \<and>
      (\<not> bidirectional self \<longrightarrow>
         fs = (if enc_rnn_type self = ''LSTM''
               then Tuple (stack_slots (enc_num_layers self)
                       (map (\<lambda>s. fst (snd (enc_rnn self s))) (unpadded frames frame_lens)))
                     (stack_slots (enc_num_layers self)
                       (map (\<lambda>s. snd (snd (enc_rnn self s))) (unpadded frames frame_lens)))
               else Tensor (stack_slots (enc_num_layers self)
                       (map (\<lambda>s. fst (snd (enc_rnn self s))) (unpadded frames frame_lens))))))"
proof (intro conjI impI)
  assume "length lens = length t"
  then show "\<exists>st sl ri perm. sort_batch_by_length t lens = Inr (st, sl, ri, perm)"
    by (rule sort_batch_total)
next
  assume sb: "sort_batch_by_length t lens = Inr (st, sl, ri, perm)"
  note p = sort_batch_by_length_props [OF sb]
  show "mset st = mset t" by (rule sort_batch_mset [OF sb])
  show "st = map (\<lambda>i. t ! i) perm" by (rule p(5))
  show "sl = map (\<lambda>i. lens ! i) perm" by (rule p(6))
  show "sorted (rev sl)" by (rule p(8))
  show "index_select st ri = Inr t"
    using sort_batch_restores [OF sb, of "\<lambda>x. x"] by simp
  show "index_select sl ri = Inr lens"
  proof -
    have "index_select (map (\<lambda>i. lens ! i) perm) ri = Inr lens"
      unfolding p(7) by (rule index_select_restore [OF p(2) p(3) p(4)]) (simp add: p(1))
    then show ?thesis by (simp add: p(6))
  qed
  show "\<forall>f :: 'a \<Rightarrow> 'b. index_select (map f st) ri = Inr (map f t)"
    using sort_batch_restores [OF sb] by blast
next
  assume fw: "VideoEncoder_forward lsm self frames frame_lens = Inr (olp, hs, fs)"
  from forward_result(1) [OF fw]
  show "hs = pad_packed_sequence (enc_width self)
             (map (\<lambda>s. fst (enc_rnn self s)) (unpadded frames frame_lens))"
    by (simp add: comp_def)
next
  assume fw: "VideoEncoder_forward lsm self frames frame_lens = Inr (olp, hs, fs)"
    and nb: "\<not> bidirectional self"
  from forward_result(2) [OF fw] nb
  show "fs = (if enc_rnn_type self = ''LSTM''
               then Tuple (stack_slots (enc_num_layers self)
                       (map (\<lambda>s. fst (snd (enc_rnn self s))) (unpadded frames frame_lens)))
                     (stack_slots (enc_num_layers self)
                       (map (\<lambda>s. snd (snd (enc_rnn self s))) (unpadded frames frame_lens)))
               else Tensor (stack_slots (enc_num_layers self)
                       (map (\<lambda>s. fst (snd (enc_rnn self s))) (unpadded frames frame_lens))))"
    by (simp add: comp_def)
qed

lemma sort_abc:
  "sort_batch_by_length ''abc'' [1, 3, 2] = Inr (''bca'', [3, 2, 1], [2, 0, 1], [1, 2, 0])"
  by (simp add: sort_batch_by_length_def Let_def)

lemma sort_frames0:
  "sort_batch_by_length [[[1, 2], [9, 9], [7, 7]], [[3, 4], [5, 6], [8, 8 :: real]]] [1, 3]
     = Inr ([[[3, 4], [5, 6], [8, 8]], [[1, 2], [9, 9], [7, 7]]], [3, 1], [1, 0], [1, 0])"
  by (simp add: sort_batch_by_length_def Let_def)

lemma forward_enc1:
  "VideoEncoder_forward lsm enc1 frames0 [1, 3]
     = Inr (None, [[[3], [0], [0]], [[7], [11], [16]]], Tensor [[[3], [34]]])"
  unfolding VideoEncoder_forward_def
  by (simp add: sort_frames0 enc1_def enc0_def frames0_def reshape_flatten_def
      pack_padded_sequence_def pad_packed_sequence_def stack_slots_def
      index_select_def index_select1_def rnn1_def Let_def eval_nat_numeral)

theorem sort_batch_round_trip_witness:
  "length [1, 3, 2 :: int] = length ''abc'' \<and>
   sort_batch_by_length ''abc'' [1, 3, 2] = Inr (''bca'', [3, 2, 1], [2, 0, 1], [1, 2, 0]) \<and>
   sorted (rev [3, 2, 1 :: int]) \<and> index_select ''bca'' [2, 0, 1] = Inr ''abc'' \<and>
   index_select [3, 2, 1 :: int] [2, 0, 1] = Inr [1, 3, 2] \<and>
   \<not> bidirectional enc1 \<and>
   VideoEncoder_forward (\<lambda>x m. x) enc1 frames0 [1, 3]
     = Inr (None, [[[3], [0], [0]], [[7], [11], [16]]], Tensor [[[3], [34]]]) \<and>
   [[[3], [0], [0]], [[7], [11], [16]]]
     = pad_packed_sequence (enc_width enc1)
         (map (\<lambda>s. fst (enc_rnn enc1 s)) (unpadded frames0 [1, 3]))"
  using sort_batch_round_trip [where t = "''abc''" and lens = "[1, 3, 2]" and st = "''bca''"
      and sl = "[3, 2, 1]" and ri = "[2, 0, 1]" and perm = "[1, 2, 0]"
      and lsm = "\<lambda>x m. x" and self = enc1 and frames = frames0 and frame_lens = "[1, 3]"
      and olp = None and hs = "[[[3], [0], [0]], [[7], [11], [16]]]"
      and fs = "Tensor [[[3], [34]]]"]
    sort_abc forward_enc1 [of "\<lambda>x m. x"]
  by (auto simp: enc1_def)

lemma joined_nth:
  "length (joined L F) = L"
  "l < L \<Longrightarrow> length (joined L F ! l) = length F"
  "l < L \<Longrightarrow> b < length F \<Longrightarrow> joined L F ! l ! b = F ! b ! (2 * l) @ F ! b ! (2 * l + 1)"
  by (simp_all add: joined_def)

lemma cat_directions_Tensor:
  assumes l: "length s = 2 * L"
    and r: "\<And>l. l < L \<Longrightarrow> length (s ! (2 * l)) = length (s ! (2 * l + 1))"
  shows "cat_directions (Tensor s)
     = Inr (Tensor (map (\<lambda>l. map (\<lambda>(u, v). u @ v) (zip (s ! (2 * l)) (s ! (2 * l + 1)))) [0..<L]))"
  by (simp add: cat_directions_def cat_even_length [OF l r])

lemma cat_directions_Tuple:
  assumes l: "length h = 2 * L" "length c = 2 * L"
    and r: "\<And>l. l < L \<Longrightarrow> length (h ! (2 * l)) = length (h ! (2 * l + 1))"
      "\<And>l. l < L \<Longrightarrow> length (c ! (2 * l)) = length (c ! (2 * l + 1))"
  shows "cat_directions (Tuple h c)
     = Inr (Tuple
         (map (\<lambda>l. map (\<lambda>(u, v). u @ v) (zip (h ! (2 * l)) (h ! (2 * l + 1)))) [0..<L])
         (map (\<lambda>l. map (\<lambda>(u, v). u @ v) (zip (c ! (2 * l)) (c ! (2 * l + 1)))) [0..<L]))"
  by (simp add: cat_directions_def cat_even_length [OF l(1) r(1)] cat_even_length [OF l(2) r(2)])

text \<open>
  C4. \<open>_cat_directions\<close> maps a state of \<open>2 * L\<close> layer-direction slots to \<open>L\<close> layers, each the
  concatenation along the feature axis of the even slot (VideoEncoder_forward direction) followed by
  the odd slot (backward direction), and does so to both members of an LSTM pair. For a
  bidirectional encoder the final state returned by \<open>forward\<close> has \<open>num_layers\<close> layers and
  one row per batch element, in the original batch order; the row of layer \<open>l\<close> is slot
  \<open>2 l\<close> followed by slot \<open>2 l + 1\<close> of that sequence's final state, of width twice the
  hidden size.
\<close>

theorem cat_directions_forward:
  "(length s = 2 * L \<and> (\<forall>l<L. length (s ! (2 * l)) = length (s ! (2 * l + 1))) \<longrightarrow>
      cat_directions (Tensor s)
        = Inr (Tensor (map (\<lambda>l. map (\<lambda>(u, v). u @ v) (zip (s ! (2 * l)) (s ! (2 * l + 1))))
                 [0..<L]))) \<and>
   (length h = 2 * L \<and> length c = 2 * L \<and>
    (\<forall>l<L. length (h ! (2 * l)) = length (h ! (2 * l + 1))) \<and>
    (\<forall>l<L. length (c ! (2 * l)) = length (c ! (2 * l + 1))) \<longrightarrow>
      cat_directions (Tuple h c)
        = Inr (Tuple
            (map (\<lambda>l. map (\<lambda>(u, v). u @ v) (zip (h ! (2 * l)) (h ! (2 * l + 1)))) [0..<L])
            (map (\<lambda>l. map (\<lambda>(u, v). u @ v) (zip (c ! (2 * l)) (c ! (2 * l + 1)))) [0..<L]))) \<and>
   (bidirectional self \<and> VideoEncoder_forward lsm self frames frame_lens = Inr (olp, hs, fs) \<longrightarrow>
      fs = (if enc_rnn_type self = ''LSTM''
            then Tuple
                  (joined (enc_num_layers self)
                    (map (\<lambda>s. fst (snd (enc_rnn self s))) (unpadded frames frame_lens)))
                  (joined (enc_num_layers self)
                    (map (\<lambda>s. snd (snd (enc_rnn self s))) (unpadded frames frame_lens)))
            else Tensor
                  (joined (enc_num_layers self)
                    (map (\<lambda>s. fst (snd (enc_rnn self s))) (unpadded frames frame_lens)))) \<and>
      length (unpadded frames frame_lens) = length frames) \<and>
   length (joined L F) = L \<and>
   (\<forall>l<L. length (joined L F ! l) = length F \<and>
      (\<forall>b<length F. joined L F ! l ! b = F ! b ! (2 * l) @ F ! b ! (2 * l + 1) \<and>
         (length (F ! b ! (2 * l)) = H \<and> length (F ! b ! (2 * l + 1)) = H \<longrightarrow>
            length (joined L F ! l ! b) = H * 2)))"
proof -
  have A: "cat_directions (Tensor s)
        = Inr (Tensor (map (\<lambda>l. map (\<lambda>(u, v). u @ v) (zip (s ! (2 * l)) (s ! (2 * l + 1))))
                 [0..<L]))"
    if "length s = 2 * L \<and> (\<forall>l<L. length (s ! (2 * l)) = length (s ! (2 * l + 1)))"
    using that by (intro cat_directions_Tensor) auto
  have B: "cat_directions (Tuple h c)
        = Inr (Tuple
            (map (\<lambda>l. map (\<lambda>(u, v). u @ v) (zip (h ! (2 * l)) (h ! (2 * l + 1)))) [0..<L])
            (map (\<lambda>l. map (\<lambda>(u, v). u @ v) (zip (c ! (2 * l)) (c ! (2 * l + 1)))) [0..<L]))"
    if "length h = 2 * L \<and> length c = 2 * L \<and>
    (\<forall>l<L. length (h ! (2 * l)) = length (h ! (2 * l + 1))) \<and>
    (\<forall>l<L. length (c ! (2 * l)) = length (c ! (2 * l + 1)))"
    using that by (intro cat_directions_Tuple) auto
  have C: "fs = (if enc_rnn_type self = ''LSTM''
            then Tuple
                  (joined (enc_num_layers self)
                    (map (\<lambda>s. fst (snd (enc_rnn self s))) (unpadded frames frame_lens)))
                  (joined (enc_num_layers self)
                    (map (\<lambda>s. snd (snd (enc_rnn self s))) (unpadded frames frame_lens)))
            else Tensor
                  (joined (enc_num_layers self)
                    (map (\<lambda>s. fst (snd (enc_rnn self s))) (unpadded frames frame_lens)))) \<and>
      length (unpadded frames frame_lens) = length frames"
    if a: "bidirectional self \<and> VideoEncoder_forward lsm self frames frame_lens = Inr (olp, hs, fs)"
  proof -
    from a have fw: "VideoEncoder_forward lsm self frames frame_lens = Inr (olp, hs, fs)" by simp
    from forward_result(2) [OF fw] forward_result(3) [OF fw] a
    show ?thesis by (simp add: comp_def unpadded_def)
  qed
  have D: "length (joined L F) = L \<and>
   (\<forall>l<L. length (joined L F ! l) = length F \<and>
      (\<forall>b<length F. joined L F ! l ! b = F ! b ! (2 * l) @ F ! b ! (2 * l + 1) \<and>
         (length (F ! b ! (2 * l)) = H \<and> length (F ! b ! (2 * l + 1)) = H \<longrightarrow>
            length (joined L F ! l ! b) = H * 2)))"
    by (simp add: joined_nth)
  from A B C D show ?thesis by blast
qed

lemma forward_enc0:
  "VideoEncoder_forward lsm enc0 frames0 [1, 3] =
     Inr (None, [[[3, - 3], [0, 0], [0, 0]], [[7, - 7], [11, - 11], [16, - 16]]],
          Tensor [[[3, - 3], [34, - 34]]])"
  unfolding VideoEncoder_forward_def
  by (simp add: sort_frames0 enc0_def frames0_def reshape_flatten_def
      pack_padded_sequence_def pad_packed_sequence_def stack_slots_def cat_directions_def cat_def
      slice_step2_def torch_cat_dim2_def index_select_def index_select1_def rnn0_def Let_def
      eval_nat_numeral)

theorem cat_directions_forward_witness:
  "cat_directions (Tensor [[[1], [2]], [[3], [4]], [[5], [6]], [[7], [8]]])
     = Inr (Tensor [[[1, 3], [2, 4]], [[5, 7], [6, 8]]]) \<and>
   cat_directions (Tuple [[[1], [2]], [[3], [4]]] [[[5], [6]], [[7], [8]]])
     = Inr (Tuple [[[1, 3], [2, 4]]] [[[5, 7], [6, 8]]]) \<and>
   bidirectional enc0 \<and>
   VideoEncoder_forward (\<lambda>x m. x) enc0 frames0 [1, 3] =
     Inr (None, [[[3, - 3], [0, 0], [0, 0]], [[7, - 7], [11, - 11], [16, - 16]]],
          Tensor [[[3, - 3], [34, - 34]]]) \<and>
   Tensor [[[3, - 3], [34, - 34]]]
     = Tensor (joined (enc_num_layers enc0)
         (map (\<lambda>s. fst (snd (enc_rnn enc0 s))) (unpadded frames0 [1, 3]))) \<and>
   joined 1 [[[3], [- 3]], [[34], [- 34 :: real]]] ! 0 ! 1 = [34, - 34] \<and>
   length (joined 1 [[[3], [- 3]], [[34], [- 34 :: real]]] ! 0 ! 1) = 1 * 2"
proof -
  have a: "cat_directions (Tensor [[[1], [2]], [[3], [4]], [[5], [6]], [[7], [8]]])
     = Inr (Tensor [[[1, 3], [2, 4]], [[5, 7], [6, 8]]])"
    using cat_directions_forward [where s = "[[[1], [2]], [[3], [4]], [[5], [6]], [[7], [8]]]"
        and L = 2 and h = "[]" and c = "[]" and F = "[]"]
    by (simp add: eval_nat_numeral All_less_Suc)
  have b: "cat_directions (Tuple [[[1], [2]], [[3], [4]]] [[[5], [6]], [[7], [8]]])
     = Inr (Tuple [[[1, 3], [2, 4]]] [[[5, 7], [6, 8]]])"
    using cat_directions_forward [where h = "[[[1], [2]], [[3], [4]]]"
        and c = "[[[5], [6]], [[7], [8]]]" and L = 1 and s = "[]" and F = "[]"]
    by (simp add: eval_nat_numeral All_less_Suc)
  have c: "bidirectional enc0" "enc_rnn_type enc0 \<noteq> ''LSTM''" by (simp_all add: enc0_def)
  note fw = forward_enc0 [of "\<lambda>x m. x"]
  have d: "Tensor [[[3, - 3], [34, - 34]]]
     = Tensor (joined (enc_num_layers enc0)
         (map (\<lambda>s. fst (snd (enc_rnn enc0 s))) (unpadded frames0 [1, 3])))"
    using cat_directions_forward [where self = enc0 and lsm = "\<lambda>x m. x" and frames = frames0
        and frame_lens = "[1, 3]" and olp = None
        and hs = "[[[3, - 3], [0, 0], [0, 0]], [[7, - 7], [11, - 11], [16, - 16]]]"
        and fs = "Tensor [[[3, - 3], [34, - 34]]]"] c fw
    by simp
  have e: "joined 1 [[[3], [- 3]], [[34], [- 34 :: real]]] ! 0 ! 1 = [34, - 34] \<and>
     length (joined 1 [[[3], [- 3]], [[34], [- 34 :: real]]] ! 0 ! 1) = 1 * 2"
    using cat_directions_forward [where L = 1 and F = "[[[3], [- 3]], [[34], [- 34 :: real]]]"
        and H = 1 and s = "[]" and h = "[]" and c = "[]"]
    by (simp add: eval_nat_numeral All_less_Suc)
  from a b c fw d e show ?thesis by blast
qed

lemma numel_conv:
  "length (concat (concat (concat g))) = sum_list (concat (concat (map (map (map length)) g)))"
  by (simp add: length_concat map_concat)

lemma numel_shape:
  assumes "map (map (map length)) f = map (map (map length)) f'"
  shows "(concat (concat (concat f)) = []) = (concat (concat (concat f')) = [])"
proof -
  note n = numel_conv
  have "length (concat (concat (concat f))) = sum_list (concat (concat (map (map (map length)) f)))"
    by (rule n)
  also have "\<dots> = sum_list (concat (concat (map (map (map length)) f')))"
    by (simp only: assms)
  also have "\<dots> = length (concat (concat (concat f')))"
    by (rule n [symmetric])
  finally have "length (concat (concat (concat f))) = length (concat (concat (concat f')))" .
  then show ?thesis by (metis length_0_conv)
qed

lemma shape_lengths:
  assumes sh: "map (map (map length)) f = map (map (map length)) f'"
  shows "length f = length f'" and "b < length f \<Longrightarrow> length (f ! b) = length (f' ! b)"
proof -
  from sh have "length (map (map (map length)) f) = length (map (map (map length)) f')" by simp
  then show l: "length f = length f'" by simp
  assume b: "b < length f"
  from sh have "map (map (map length)) f ! b = map (map (map length)) f' ! b" by simp
  with b l have "map (map length) (f ! b) = map (map length) (f' ! b)" by simp
  then have "length (map (map length) (f ! b)) = length (map (map length) (f' ! b))" by simp
  then show "length (f ! b) = length (f' ! b)" by simp
qed

lemma pack_padding_independent:
  assumes l: "length fr = length fr'"
    and r: "\<And>b. b < length fr \<Longrightarrow> length (fr ! b) = length (fr' ! b)"
    and v: "\<And>b t. b < length fr \<Longrightarrow> int t < lens ! b \<Longrightarrow> t < length (fr ! b)
               \<Longrightarrow> fr ! b ! t = fr' ! b ! t"
    and p: "set perm \<subseteq> {0..<length fr}" and ll: "length lens = length fr"
  shows "pack_padded_sequence (map (\<lambda>i. fr ! i) perm) (map (\<lambda>i. lens ! i) perm)
       = pack_padded_sequence (map (\<lambda>i. fr' ! i) perm) (map (\<lambda>i. lens ! i) perm)"
proof -
  have tk: "take (nat (lens ! b)) (fr ! b) = take (nat (lens ! b)) (fr' ! b)" if "b < length fr" for b
  proof (rule nth_equalityI)
    show "length (take (nat (lens ! b)) (fr ! b)) = length (take (nat (lens ! b)) (fr' ! b))"
      using r [OF that] by simp
    fix i assume "i < length (take (nat (lens ! b)) (fr ! b))"
    then have "i < nat (lens ! b)" "i < length (fr ! b)" by simp_all
    then show "take (nat (lens ! b)) (fr ! b) ! i = take (nat (lens ! b)) (fr' ! b) ! i"
      using v [OF that, of i] by simp
  qed
  have in_range: "\<And>i. i \<in> set perm \<Longrightarrow> i < length fr" using p by auto
  have c: "(\<exists>(s, l)\<in>set (zip (map (\<lambda>i. fr ! i) perm) (map (\<lambda>i. lens ! i) perm)).
              l < 1 \<or> int (length s) < l)
         = (\<exists>(s, l)\<in>set (zip (map (\<lambda>i. fr' ! i) perm) (map (\<lambda>i. lens ! i) perm)).
              l < 1 \<or> int (length s) < l)"
    using in_range r by (auto simp: zip_map_map zip_same_conv_map)
  have m: "map (\<lambda>(s, l). take (nat l) s) (zip (map (\<lambda>i. fr ! i) perm) (map (\<lambda>i. lens ! i) perm))
         = map (\<lambda>(s, l). take (nat l) s) (zip (map (\<lambda>i. fr' ! i) perm) (map (\<lambda>i. lens ! i) perm))"
    using in_range tk by (auto simp: zip_map_map zip_same_conv_map)
  show ?thesis
    unfolding pack_padded_sequence_def by (simp only: c m length_map map_is_Nil_conv)
qed


lemma forward_padding_independent:
  assumes sh: "map (map (map length)) frames = map (map (map length)) frames'"
    and v: "\<And>b t. b < length frames \<Longrightarrow> int t < lens ! b \<Longrightarrow> t < length (frames ! b)
               \<Longrightarrow> frames ! b ! t = frames' ! b ! t"
  shows "VideoEncoder_forward lsm self frames lens = VideoEncoder_forward lsm self frames' lens"
proof (cases "frame_processing self = ''flatten'' \<and> concat (concat (concat frames)) \<noteq> []
    \<and> length lens = length frames")
  case False
  then show ?thesis
    using numel_shape [OF sh] shape_lengths(1) [OF sh]
    by (auto simp: VideoEncoder_forward_def reshape_flatten_def sort_batch_by_length_def)
next
  case True
  let ?fr = "map (map concat) frames" and ?fr' = "map (map concat) frames'"
  let ?perm = "sort_key (\<lambda>i. - (lens ! i)) [0..<length lens]"
  have l: "length ?fr = length ?fr'" using shape_lengths(1) [OF sh] by simp
  have r: "length (?fr ! b) = length (?fr' ! b)" if "b < length ?fr" for b
    using that shape_lengths [OF sh] by simp
  have vv: "?fr ! b ! t = ?fr' ! b ! t"
    if "b < length ?fr" "int t < lens ! b" "t < length (?fr ! b)" for b t
    using that v [of b t] shape_lengths [OF sh] by simp
  have p: "set ?perm \<subseteq> {0..<length ?fr}" using True by simp
  have ll: "length lens = length ?fr" using True by simp
  note pk = pack_padding_independent [of ?fr ?fr' lens ?perm, OF l r vv p ll]
  have nz: "concat (concat (concat frames')) \<noteq> []" using True numel_shape [OF sh] by blast
  have l': "length lens = length frames'" using True shape_lengths(1) [OF sh] by simp
  have flat: "frame_processing self = ''flatten''" using True by simp
  have rf: "reshape_flatten frames = Inr ?fr" using True by (simp add: reshape_flatten_def)
  have rf': "reshape_flatten frames' = Inr ?fr'" using nz by (simp add: reshape_flatten_def)
  have sb: "sort_batch_by_length ?fr lens
      = Inr (map (\<lambda>i. ?fr ! i) ?perm, map (\<lambda>i. lens ! i) ?perm,
             sort_key (\<lambda>j. ?perm ! j) [0..<length ?perm], ?perm)"
    using True by (simp add: sort_batch_by_length_def Let_def)
  have sb': "sort_batch_by_length ?fr' lens
      = Inr (map (\<lambda>i. ?fr' ! i) ?perm, map (\<lambda>i. lens ! i) ?perm,
             sort_key (\<lambda>j. ?perm ! j) [0..<length ?perm], ?perm)"
    using l' by (simp add: sort_batch_by_length_def Let_def)
  show ?thesis
    unfolding VideoEncoder_forward_def
    by (simp only: rf rf' sb sb' flat simp_thms if_True ebind_Inr prod.case pk)
qed


lemma forward_pad_value:
  assumes fw: "VideoEncoder_forward lsm self frames lens = Inr (olp, hs, fs)"
    and len: "\<And>s. length (fst (enc_rnn self s)) = length s"
    and b: "b < length frames" and t: "nat (lens ! b) \<le> t" "t < length (hs ! b)"
  shows "hs ! b ! t = replicate (enc_width self) 0"
proof -
  note r = forward_result [OF fw]
  let ?ys = "unpadded frames lens"
  have ly: "length ?ys = length frames" using r(3) by (simp add: unpadded_def)
  have yb: "?ys ! b = take (nat (lens ! b)) (map concat (frames ! b))"
    using b r(3) by (simp add: unpadded_def)
  have "lens ! b \<le> int (length (frames ! b))" using r(5) b by simp
  then have lyb: "length (?ys ! b) = nat (lens ! b)" by (simp add: yb)
  let ?o = "fst (enc_rnn self (?ys ! b))"
  have lo: "length ?o = nat (lens ! b)" using len lyb by simp
  have hb: "hs ! b = ?o @ replicate
      (Max (set (map length (map fst (map (enc_rnn self) ?ys)))) - length ?o)
      (replicate (enc_width self) 0)"
    using b ly by (simp add: r(1) pad_packed_sequence_def)
  from t lo show ?thesis
    by (simp add: hb nth_append)
qed

text \<open>
  C5. Two frame tensors of the same shape that agree, for every batch element, on the
  timesteps before its true length give the same result of \<open>forward\<close> (hidden states,
  final state, CTC output, or the same error): the values at timesteps \<open>t \<ge> frame_lens[i]\<close>
  are not read. When the recurrent layer returns one output per timestep, the returned
  hidden states at positions from the true length on are the pad value, the zero vector.
\<close>

theorem forward_ignores_padding:
  "(map (map (map length)) frames = map (map (map length)) frames' \<and>
    (\<forall>b<length frames. \<forall>t<length (frames ! b).
        int t < lens ! b \<longrightarrow> frames ! b ! t = frames' ! b ! t) \<longrightarrow>
      VideoEncoder_forward lsm self frames lens = VideoEncoder_forward lsm self frames' lens) \<and>
   (VideoEncoder_forward lsm self frames lens = Inr (olp, hs, fs) \<and>
    (\<forall>s. length (fst (enc_rnn self s)) = length s) \<longrightarrow>
      (\<forall>b<length frames. \<forall>t<length (hs ! b).
          nat (lens ! b) \<le> t \<longrightarrow> hs ! b ! t = replicate (enc_width self) 0))"
proof -
  have A: "VideoEncoder_forward lsm self frames lens = VideoEncoder_forward lsm self frames' lens"
    if "map (map (map length)) frames = map (map (map length)) frames' \<and>
        (\<forall>b<length frames. \<forall>t<length (frames ! b).
            int t < lens ! b \<longrightarrow> frames ! b ! t = frames' ! b ! t)"
    using that by (intro forward_padding_independent) auto
  have B: "\<forall>b<length frames. \<forall>t<length (hs ! b).
          nat (lens ! b) \<le> t \<longrightarrow> hs ! b ! t = replicate (enc_width self) 0"
    if "VideoEncoder_forward lsm self frames lens = Inr (olp, hs, fs) \<and>
        (\<forall>s. length (fst (enc_rnn self s)) = length s)"
    using that forward_pad_value [of lsm self frames lens olp hs fs] by blast
  from A B show ?thesis by blast
qed

theorem forward_ignores_padding_witness:
  "map (map (map length)) frames0 = map (map (map length)) frames0' \<and>
   frames0 ! 0 ! 0 = frames0' ! 0 ! 0 \<and> frames0 ! 0 ! 1 \<noteq> frames0' ! 0 ! 1 \<and>
   VideoEncoder_forward (\<lambda>x m. x) enc0 frames0 [1, 3] = VideoEncoder_forward (\<lambda>x m. x) enc0 frames0' [1, 3] \<and>
   VideoEncoder_forward (\<lambda>x m. x) enc0 frames0 [1, 3] =
     Inr (None, [[[3, - 3], [0, 0], [0, 0]], [[7, - 7], [11, - 11], [16, - 16]]],
          Tensor [[[3, - 3], [34, - 34]]]) \<and>
   [[[3, - 3], [0, 0], [0, 0]], [[7, - 7], [11, - 11], [16, - 16 :: real]]] ! 0 ! 1
     = replicate (enc_width enc0) 0"
proof -
  let ?hs = "[[[3, - 3], [0, 0], [0, 0]], [[7, - 7], [11, - 11], [16, - 16]]] :: real list list list"
  have sh: "map (map (map length)) frames0 = map (map (map length)) frames0'"
    by (simp add: frames0_def frames0'_def)
  have ag: "\<forall>b<length frames0. \<forall>t<length (frames0 ! b).
      int t < [1, 3] ! b \<longrightarrow> frames0 ! b ! t = frames0' ! b ! t"
    by (simp add: frames0_def frames0'_def All_less_Suc eval_nat_numeral)
  have ln: "\<forall>s. length (fst (enc_rnn enc0 s)) = length s"
    by (simp add: enc0_def rnn0_def)
  note fw = forward_enc0 [of "\<lambda>x m. x"]
  note t = forward_ignores_padding [where frames = frames0 and frames' = frames0'
      and lens = "[1, 3]" and lsm = "\<lambda>x m. x" and self = enc0 and olp = None
      and hs = ?hs and fs = "Tensor [[[3, - 3], [34, - 34]]]"]
  from t sh ag have eq: "VideoEncoder_forward (\<lambda>x m. x) enc0 frames0 [1, 3]
      = VideoEncoder_forward (\<lambda>x m. x) enc0 frames0' [1, 3]" by blast
  from t fw ln have pv: "\<forall>b<length frames0. \<forall>t<length (?hs ! b).
        nat ([1, 3] ! b) \<le> t \<longrightarrow> ?hs ! b ! t = replicate (enc_width enc0) 0" by blast
  have "?hs ! 0 ! 1 = replicate (enc_width enc0) 0"
    using pv by (simp add: frames0_def All_less_Suc eval_nat_numeral)
  moreover have "frames0 ! 0 ! 0 = frames0' ! 0 ! 0" "frames0 ! 0 ! 1 \<noteq> frames0' ! 0 ! 1"
    by (simp_all add: frames0_def frames0'_def)
  ultimately show ?thesis using sh eq fw by blast
qed

section \<open>The decoding step\<close>

lemma shape1_shape: "shape1 (map (map length) t) = shape1 t"
  by (cases t) (simp_all add: shape1_def)

lemma decoder_none_shape_only:
  assumes n: "attention_type self = ''none''"
    and sh: "map (map length) ehs = map (map length) ehs'"
  shows "CharDecodingStep_forward sm lsm self input prev lens ehs
       = CharDecodingStep_forward sm lsm self input prev lens ehs'"
proof -
  have s1: "shape1 ehs = shape1 ehs'"
    using shape1_shape [of ehs] shape1_shape [of ehs'] sh by simp
  have ex: "expand_as h ehs = expand_as h ehs'" for h :: "real list list"
    by (simp add: expand_as_def sh)
  show ?thesis
    unfolding CharDecodingStep_forward_def Let_def
    by (simp only: n s1 ex simp_thms if_False)
qed

lemma encoder_mask_clamp:
  "encoder_mask_of B T lens = encoder_mask_of B T (map (\<lambda>l. min l (int T)) lens)"
proof -
  have row: "map (\<lambda>t. int t < l) [0..<T] = map (\<lambda>t. int t < min l (int T)) [0..<T]" for l
    by (rule map_cong) auto
  have "length lens = 1 \<Longrightarrow> map (\<lambda>l. min l (int T)) lens ! 0 = min (lens ! 0) (int T)"
    by (cases lens) simp_all
  then show ?thesis
    using row by (auto simp: encoder_mask_of_def comp_def)
qed

lemma decoder_lens_clamp:
  "CharDecodingStep_forward sm lsm self input prev lens ehs
     = CharDecodingStep_forward sm lsm self input prev
         (map (\<lambda>l. min l (int (shape1 ehs))) lens) ehs"
  unfolding CharDecodingStep_forward_def Let_def
  by (simp only: encoder_mask_clamp [symmetric])

lemma encoder_rejects_long:
  assumes "b < length frames" "int (length (frames ! b)) < lens ! b"
  shows "\<exists>e. VideoEncoder_forward lsm self frames lens = Inl e"
proof (cases "VideoEncoder_forward lsm self frames lens")
  case (Inl e)
  then show ?thesis by blast
next
  case (Inr r)
  obtain olp hs fs where "r = (olp, hs, fs)" by (cases r) auto
  with Inr have "VideoEncoder_forward lsm self frames lens = Inr (olp, hs, fs)" by simp
  from forward_result(5) [OF this] assms show ?thesis by auto
qed

lemma forward_dec0:
  "CharDecodingStep_forward sm (\<lambda>x m. x) dec0 [2] (Tensor [[[0, 0]]]) [l] [[[a, b], [c, d]]]
     = Inr ([[2, 1, 3]], Tensor [[[0, 0]]])"
  unfolding CharDecodingStep_forward_def
  by (simp add: Let_def dec0_def dec_weights0_def encoder_mask_of_def shape1_def
      Embedding_forward_def expand_as_def expand_shape_def expand_vec_def Linear_forward_def
      nn_Linear_def expand_mask_def masked_rows2_def eval_nat_numeral)

text \<open>
  C7. With \<open>attention_type = 'none'\<close>, two calls of \<open>CharDecodingStep.forward\<close> that differ
  only in the values of \<open>encoder_hidden_states\<close> (same shape, same input tokens, previous
  state and \<open>encoder_lens\<close>) return the same log-probabilities and the same new state (or
  raise the same error).
\<close>

theorem decoder_none_independent:
  "attention_type self = ''none'' \<and> map (map length) ehs = map (map length) ehs' \<longrightarrow>
     CharDecodingStep_forward sm lsm self input prev lens ehs
       = CharDecodingStep_forward sm lsm self input prev lens ehs'"
  using decoder_none_shape_only by blast

theorem decoder_none_independent_witness:
  "attention_type dec0 = ''none'' \<and> map (map length) ehs0 = map (map length) ehs0' \<and>
   ehs0 \<noteq> ehs0' \<and>
   CharDecodingStep_forward (\<lambda>x m. x) (\<lambda>x m. x) dec0 [2] (Tensor [[[0, 0]]]) [2] ehs0
     = CharDecodingStep_forward (\<lambda>x m. x) (\<lambda>x m. x) dec0 [2] (Tensor [[[0, 0]]]) [2] ehs0' \<and>
   CharDecodingStep_forward (\<lambda>x m. x) (\<lambda>x m. x) dec0 [2] (Tensor [[[0, 0]]]) [2] ehs0
     = Inr ([[2, 1, 3]], Tensor [[[0, 0]]])"
proof -
  have a: "attention_type dec0 = ''none''" by (simp add: dec0_def)
  have b: "map (map length) ehs0 = map (map length) ehs0'" "ehs0 \<noteq> ehs0'"
    by (simp_all add: ehs0_def ehs0'_def)
  from decoder_none_independent [of dec0 ehs0 ehs0' "\<lambda>x m. x" "\<lambda>x m. x" "[2]"
      "Tensor [[[0, 0]]]" "[2]"] a b
  have "CharDecodingStep_forward (\<lambda>x m. x) (\<lambda>x m. x) dec0 [2] (Tensor [[[0, 0]]]) [2] ehs0
     = CharDecodingStep_forward (\<lambda>x m. x) (\<lambda>x m. x) dec0 [2] (Tensor [[[0, 0]]]) [2] ehs0'"
    by blast
  with a b forward_dec0 [of "\<lambda>x m. x" 2 1 2 3 4] show ?thesis
    by (simp add: ehs0_def)
qed

lemma dec_dot_init:
  "CharDecodingStep_init ''<pad>'' ''<bos>'' dec_weights0 enc0 1 3 c2i0 0 ''dot'' (-1) = Inr dec_dot"
  by (simp add: CharDecodingStep_init_def ALLOWED_ATTENTION_TYPES_def torch_ones_def
      getitem_def setitem_def c2i0_def dec_dot_def dec0_def enc0_def numeral_3_eq_3)

lemma encoder_mask_rows:
  assumes l: "length lens = B" and m: "encoder_mask_of B T lens = Inr msk"
  shows "length msk = B"
    and "b < B \<Longrightarrow> msk ! b = map (\<lambda>t. int t < lens ! b) [0..<T]"
    and "b < B \<Longrightarrow> int T \<le> lens ! b \<Longrightarrow> msk ! b = replicate T True"
proof -
  from l m have e: "msk = map (\<lambda>l. map (\<lambda>t. int t < l) [0..<T]) lens"
    by (simp add: encoder_mask_of_def)
  show "length msk = B" by (simp add: e l)
  show r: "msk ! b = map (\<lambda>t. int t < lens ! b) [0..<T]" if "b < B"
    using that l by (simp add: e)
  show "msk ! b = replicate T True" if "b < B" "int T \<le> lens ! b"
  proof -
    have "map (\<lambda>t. int t < lens ! b) [0..<T] = map (\<lambda>t. True) [0..<T]"
      using that(2) by (intro map_cong) auto
    then show ?thesis using r [OF that(1)] by (simp add: map_replicate_const)
  qed
qed

lemma encoder_mask_total:
  "length lens = B \<Longrightarrow> \<exists>msk. encoder_mask_of B T lens = Inr msk"
  by (simp add: encoder_mask_of_def)

lemma masked_rows2_nth:
  assumes m: "masked_rows2 row logits msk = Inr out"
  shows "length out = length logits" and "length msk = length logits"
    and "b < length logits \<Longrightarrow> out ! b = row (logits ! b) (msk ! b)"
proof -
  from m have l: "map length msk = map length logits"
    and o: "out = map (\<lambda>(x, m). row x m) (zip logits msk)"
    by (auto simp: masked_rows2_def split: if_splits)
  from l show lm: "length msk = length logits" by (metis length_map)
  show "length out = length logits" by (simp add: o lm)
  show "out ! b = row (logits ! b) (msk ! b)" if "b < length logits"
    using that lm by (simp add: o)
qed

lemma dec_forward_attnE:
  assumes "CharDecodingStep_forward sm lsm self input prev lens ehs = Inr (olp, st)"
    and "attention_type self \<noteq> ''none''"
  obtains msk emb hidden expanded logits weights ctx cat_state new_hidden out_logits omask where
    "encoder_mask_of (length input) (shape1 ehs) lens = Inr msk"
    "Embedding_forward (embedding self) input = Inr emb"
    "dec_rnn self emb prev = Inr (hidden, st)"
    "expand_as hidden ehs = Inr expanded"
    "attn_logits_of self ehs expanded = Inr logits"
    "masked_rows2 sm logits msk = Inr weights"
    "bmm_context weights ehs = Inr ctx"
    "torch_cat_dim1 ctx hidden = Inr cat_state"
    "emap (Linear_forward (concat_layer self)) cat_state = Inr new_hidden"
    "emap (Linear_forward (output_proj self)) (map (map tanh) new_hidden) = Inr out_logits"
    "expand_mask (output_mask self) (length input) (nat (vocab_size self)) = Inr omask"
    "masked_rows2 lsm out_logits omask = Inr olp"
  using assms
  unfolding CharDecodingStep_forward_def Let_def
  by (fastforce simp: ebind_Inr_iff split: if_splits prod.splits)

lemma decoder_full_attention:
  assumes f: "CharDecodingStep_forward sm lsm self input prev lens ehs = Inr (olp, st)"
    and a: "attention_type self \<noteq> ''none''" and l: "length lens = length input"
  shows "\<exists>emb hidden expanded logits weights ctx cat_state new_hidden out_logits omask.
      Embedding_forward (embedding self) input = Inr emb \<and>
      dec_rnn self emb prev = Inr (hidden, st) \<and>
      expand_as hidden ehs = Inr expanded \<and>
      attn_logits_of self ehs expanded = Inr logits \<and>
      length logits = length input \<and> length weights = length input \<and>
      (\<forall>i<length input. weights ! i
          = sm (logits ! i) (map (\<lambda>t. int t < lens ! i) [0..<shape1 ehs])) \<and>
      (\<forall>i<length input. int (shape1 ehs) \<le> lens ! i \<longrightarrow>
          weights ! i = sm (logits ! i) (replicate (shape1 ehs) True)) \<and>
      bmm_context weights ehs = Inr ctx \<and>
      torch_cat_dim1 ctx hidden = Inr cat_state \<and>
      emap (Linear_forward (concat_layer self)) cat_state = Inr new_hidden \<and>
      emap (Linear_forward (output_proj self)) (map (map tanh) new_hidden) = Inr out_logits \<and>
      expand_mask (output_mask self) (length input) (nat (vocab_size self)) = Inr omask \<and>
      masked_rows2 lsm out_logits omask = Inr olp"
proof -
  from f a obtain msk emb hidden expanded logits weights ctx cat_state new_hidden out_logits
      omask where
    m: "encoder_mask_of (length input) (shape1 ehs) lens = Inr msk" and
    r: "Embedding_forward (embedding self) input = Inr emb"
    "dec_rnn self emb prev = Inr (hidden, st)"
    "expand_as hidden ehs = Inr expanded"
    "attn_logits_of self ehs expanded = Inr logits" and
    w: "masked_rows2 sm logits msk = Inr weights" and
    s: "bmm_context weights ehs = Inr ctx"
    "torch_cat_dim1 ctx hidden = Inr cat_state"
    "emap (Linear_forward (concat_layer self)) cat_state = Inr new_hidden"
    "emap (Linear_forward (output_proj self)) (map (map tanh) new_hidden) = Inr out_logits"
    "expand_mask (output_mask self) (length input) (nat (vocab_size self)) = Inr omask"
    "masked_rows2 lsm out_logits omask = Inr olp"
    by (rule dec_forward_attnE)
  note k = encoder_mask_rows [OF l m]
  note n = masked_rows2_nth [OF w]
  have ll: "length logits = length input" using n(2) k(1) by simp
  have lw: "length weights = length input" using n(1) ll by simp
  have w1: "\<forall>i<length input. weights ! i
          = sm (logits ! i) (map (\<lambda>t. int t < lens ! i) [0..<shape1 ehs])"
    using n(3) k(2) ll by simp
  have w2: "\<forall>i<length input. int (shape1 ehs) \<le> lens ! i \<longrightarrow>
          weights ! i = sm (logits ! i) (replicate (shape1 ehs) True)"
    using n(3) k(3) ll by simp
  from r ll lw w1 w2 s show ?thesis by blast
qed

lemma sm0_two: "sm0 [a, a] [True, True] = [1/2, 1/2]"
proof -
  have "exp a / (exp a + exp a) = 1 / 2"
    by (simp add: field_simps)
  then show ?thesis by (simp add: sm0_def)
qed

lemma sm0_one: "sm0 [a, b] [True, False] = [1, 0]"
  by (simp add: sm0_def)

lemma forward_dec_dot:
  "l \<in> {2, 5} \<Longrightarrow>
   CharDecodingStep_forward sm0 (\<lambda>x m. x) dec_dot [2] (Tensor [[[0, 0]]]) [l] ehs1
     = Inr ([[tanh (3/2), tanh 1, tanh (3/2) + tanh 1]], Tensor [[[0, 0]]])"
  unfolding CharDecodingStep_forward_def
  by (auto simp: Let_def dec_dot_def dec0_def dec_weights0_def encoder_mask_of_def shape1_def
      ehs1_def Embedding_forward_def expand_as_def expand_shape_def expand_vec_def
      attn_logits_of_def zip_rows_def dot_def bmm_context_def weighted_sum_def
      torch_cat_dim1_def Linear_forward_def nn_Linear_def expand_mask_def masked_rows2_def
      sm0_two sm0_one eval_nat_numeral)

lemma forward_dec_dot_short:
  "CharDecodingStep_forward sm0 (\<lambda>x m. x) dec_dot [2] (Tensor [[[0, 0]]]) [1] ehs1
     = Inr ([[tanh 1, tanh 2, tanh 1 + tanh 2]], Tensor [[[0, 0]]])"
  unfolding CharDecodingStep_forward_def
  by (simp add: Let_def dec_dot_def dec0_def dec_weights0_def encoder_mask_of_def shape1_def
      ehs1_def Embedding_forward_def expand_as_def expand_shape_def expand_vec_def
      attn_logits_of_def zip_rows_def dot_def bmm_context_def weighted_sum_def
      torch_cat_dim1_def Linear_forward_def nn_Linear_def expand_mask_def masked_rows2_def
      sm0_two sm0_one eval_nat_numeral)

lemma attention_dec_dot:
  "attn_logits_of dec_dot ehs1 [[[2, 1], [2, 1]]] = Inr [[4, 4]]"
  "sm0 [4, 4] (replicate (shape1 ehs1) True) = [1/2, 1/2]"
  "bmm_context [[1/2, 1/2]] ehs1 = Inr [[3/2, 1]]"
  "bmm_context [[1, 0]] ehs1 = Inr [[1, 2]]"
  by (simp_all add: attn_logits_of_def dec_dot_def dec0_def zip_rows_def dot_def ehs1_def
      shape1_def sm0_two bmm_context_def weighted_sum_def eval_nat_numeral)

lemma forward_enc0_long: "VideoEncoder_forward lsm enc0 frames0 [1, 4] = Inl RuntimeError"
  unfolding VideoEncoder_forward_def
  by (simp add: sort_batch_by_length_def enc0_def frames0_def reshape_flatten_def
      pack_padded_sequence_def Let_def eval_nat_numeral)

text \<open>
  C9 as stated fails for the decoding step: with dot attention, \<open>encoder_hidden_states\<close> of
  sequence dimension 2 and \<open>encoder_lens = [5]\<close> the call raises nothing and returns
  log-probabilities and a state.
\<close>

theorem length_check_counterexample:
  "CharDecodingStep_init ''<pad>'' ''<bos>'' dec_weights0 enc0 1 3 c2i0 0 ''dot'' (-1) = Inr dec_dot \<and>
   int (shape1 ehs1) < [5] ! 0 \<and>
   CharDecodingStep_forward sm0 (\<lambda>x m. x) dec_dot [2] (Tensor [[[0, 0]]]) [5] ehs1
     = Inr ([[tanh (3/2), tanh 1, tanh (3/2) + tanh 1]], Tensor [[[0, 0]]])"
  using dec_dot_init forward_dec_dot [of 5]
  by (simp add: ehs1_def shape1_def)

text \<open>
  C9, as the code has it. \<open>VideoEncoder.forward\<close> raises when some \<open>frame_lens[i]\<close> exceeds
  the sequence dimension of \<open>frames\<close>: the packing step, a library call, rejects it, and
  the method itself compares nothing. \<open>CharDecodingStep.forward\<close> has no check of \<open>encoder_lens\<close> against the sequence dimension of
  \<open>encoder_hidden_states\<close>. The validity mask is built for every \<open>encoder_lens\<close> of batch
  length, and a length of at least the sequence dimension makes its mask row all valid. A
  call with attention that returns has normalised the attention scores of such a row under
  the all-valid mask (of every row, under \<open>t < encoder_lens[i]\<close>), and its context,
  projections and output come from those weights. Every call gives what it gives for the
  lengths clamped to the sequence dimension, the same error included.
\<close>

theorem length_check:
  "(b < length frames \<and> int (length (frames ! b)) < frame_lens ! b \<longrightarrow>
      (\<exists>e. VideoEncoder_forward lsm enc frames frame_lens = Inl e)) \<and>
   (length encoder_lens = length input \<longrightarrow>
      (\<exists>msk. encoder_mask_of (length input) (shape1 ehs) encoder_lens = Inr msk \<and>
         length msk = length input \<and>
         (\<forall>i<length input. msk ! i = map (\<lambda>t. int t < encoder_lens ! i) [0..<shape1 ehs]) \<and>
         (\<forall>i<length input. int (shape1 ehs) \<le> encoder_lens ! i \<longrightarrow>
            msk ! i = replicate (shape1 ehs) True))) \<and>
   (length encoder_lens = length input \<and> attention_type self \<noteq> ''none'' \<and>
    CharDecodingStep_forward sm lsm' self input prev encoder_lens ehs = Inr (olp, st) \<longrightarrow>
      (\<exists>emb hidden expanded logits weights ctx cat_state new_hidden out_logits omask.
         Embedding_forward (embedding self) input = Inr emb \<and>
         dec_rnn self emb prev = Inr (hidden, st) \<and>
         expand_as hidden ehs = Inr expanded \<and>
         attn_logits_of self ehs expanded = Inr logits \<and>
         length logits = length input \<and> length weights = length input \<and>
         (\<forall>i<length input. weights ! i
             = sm (logits ! i) (map (\<lambda>t. int t < encoder_lens ! i) [0..<shape1 ehs])) \<and>
         (\<forall>i<length input. int (shape1 ehs) \<le> encoder_lens ! i \<longrightarrow>
             weights ! i = sm (logits ! i) (replicate (shape1 ehs) True)) \<and>
         bmm_context weights ehs = Inr ctx \<and>
         torch_cat_dim1 ctx hidden = Inr cat_state \<and>
         emap (Linear_forward (concat_layer self)) cat_state = Inr new_hidden \<and>
         emap (Linear_forward (output_proj self)) (map (map tanh) new_hidden) = Inr out_logits \<and>
         expand_mask (output_mask self) (length input) (nat (vocab_size self)) = Inr omask \<and>
         masked_rows2 lsm' out_logits omask = Inr olp)) \<and>
   CharDecodingStep_forward sm lsm' self input prev encoder_lens ehs
     = CharDecodingStep_forward sm lsm' self input prev
         (map (\<lambda>l. min l (int (shape1 ehs))) encoder_lens) ehs"
proof -
  have A: "\<exists>e. VideoEncoder_forward lsm enc frames frame_lens = Inl e"
    if "b < length frames \<and> int (length (frames ! b)) < frame_lens ! b"
    using that encoder_rejects_long by blast
  have B: "\<exists>msk. encoder_mask_of (length input) (shape1 ehs) encoder_lens = Inr msk \<and>
         length msk = length input \<and>
         (\<forall>i<length input. msk ! i = map (\<lambda>t. int t < encoder_lens ! i) [0..<shape1 ehs]) \<and>
         (\<forall>i<length input. int (shape1 ehs) \<le> encoder_lens ! i \<longrightarrow>
            msk ! i = replicate (shape1 ehs) True)"
    if l: "length encoder_lens = length input"
  proof -
    from encoder_mask_total [OF l] obtain msk
      where m: "encoder_mask_of (length input) (shape1 ehs) encoder_lens = Inr msk" by blast
    from encoder_mask_rows [OF l m] m show ?thesis by blast
  qed
  note C = decoder_full_attention [of sm lsm' self input prev encoder_lens ehs olp st]
  note D = decoder_lens_clamp [of sm lsm' self input prev encoder_lens ehs]
  from A B C D show ?thesis by blast
qed

theorem length_check_witness:
  "(1 :: nat) < length frames0 \<and> int (length (frames0 ! 1)) < [1, 4] ! 1 \<and>
   VideoEncoder_forward (\<lambda>x m. x) enc0 frames0 [1, 4] = Inl RuntimeError \<and>
   length [5 :: int] = length [2 :: int] \<and> int (shape1 ehs1) \<le> [5] ! 0 \<and>
   attention_type dec_dot \<noteq> ''none'' \<and>
   encoder_mask_of (length [2 :: int]) (shape1 ehs1) [5] = Inr [[True, True]] \<and>
   attn_logits_of dec_dot ehs1 [[[2, 1], [2, 1]]] = Inr [[4, 4]] \<and>
   sm0 [4, 4] (replicate (shape1 ehs1) True) = [1/2, 1/2] \<and>
   bmm_context [[1/2, 1/2]] ehs1 = Inr [[3/2, 1]] \<and>
   CharDecodingStep_forward sm0 (\<lambda>x m. x) dec_dot [2] (Tensor [[[0, 0]]]) [5] ehs1
     = Inr ([[tanh (3/2), tanh 1, tanh (3/2) + tanh 1]], Tensor [[[0, 0]]]) \<and>
   CharDecodingStep_forward sm0 (\<lambda>x m. x) dec_dot [2] (Tensor [[[0, 0]]]) [5] ehs1
     = CharDecodingStep_forward sm0 (\<lambda>x m. x) dec_dot [2] (Tensor [[[0, 0]]]) [2] ehs1 \<and>
   CharDecodingStep_forward sm0 (\<lambda>x m. x) dec_dot [2] (Tensor [[[0, 0]]]) [1] ehs1
     = Inr ([[tanh 1, tanh 2, tanh 1 + tanh 2]], Tensor [[[0, 0]]])"
proof -
  have h: "(1 :: nat) < length frames0" "int (length (frames0 ! 1)) < [1, 4] ! 1"
    by (simp_all add: frames0_def)
  have g: "length [5 :: int] = length [2 :: int]" "int (shape1 ehs1) \<le> [5] ! 0"
    "attention_type dec_dot \<noteq> ''none''" "shape1 ehs1 = 2"
    by (simp_all add: ehs1_def shape1_def dec_dot_def)
  note t = length_check [where b = 1 and frames = frames0 and frame_lens = "[1, 4]"
      and lsm = "\<lambda>x m. x" and enc = enc0 and sm = sm0 and lsm' = "\<lambda>x m. x"
      and self = dec_dot and input = "[2]" and prev = "Tensor [[[0, 0]]]"
      and encoder_lens = "[5]" and ehs = ehs1
      and olp = "[[tanh (3/2), tanh 1, tanh (3/2) + tanh 1]]" and st = "Tensor [[[0, 0]]]"]
  from t h have e: "\<exists>e. VideoEncoder_forward (\<lambda>x m. x) enc0 frames0 [1, 4] = Inl e"
    by blast
  from t g have "\<exists>msk. encoder_mask_of (length [2 :: int]) (shape1 ehs1) [5] = Inr msk \<and>
      length msk = length [2 :: int] \<and>
      (\<forall>i<length [2 :: int]. int (shape1 ehs1) \<le> [5] ! i \<longrightarrow>
         msk ! i = replicate (shape1 ehs1) True)"
    by blast
  then obtain msk where m: "encoder_mask_of (length [2 :: int]) (shape1 ehs1) [5] = Inr msk"
    "length msk = 1" "msk ! 0 = replicate 2 True"
    using g by auto
  from m(2, 3) have "msk = [[True, True]]"
    by (cases msk) (simp_all add: eval_nat_numeral)
  with m(1) have k: "encoder_mask_of (length [2 :: int]) (shape1 ehs1) [5] = Inr [[True, True]]"
    by simp
  from t have c: "CharDecodingStep_forward sm0 (\<lambda>x m. x) dec_dot [2] (Tensor [[[0, 0]]]) [5] ehs1
     = CharDecodingStep_forward sm0 (\<lambda>x m. x) dec_dot [2] (Tensor [[[0, 0]]]) [2] ehs1"
    by (simp add: g)
  from h g e k c forward_enc0_long [of "\<lambda>x m. x"] forward_dec_dot [of 5]
    forward_dec_dot_short attention_dec_dot
  show ?thesis by simp
qed

section \<open>The output masks\<close>

lemma setitem_False:
  assumes "setitem m i False = Inr m'"
  shows "length m' = length m"
    and "0 \<le> i \<Longrightarrow> nat i < length m' \<and> \<not> m' ! nat i"
    and "j < length m \<Longrightarrow> \<not> m ! j \<Longrightarrow> \<not> m' ! j"
  using assms
  by (auto simp: setitem_def Let_def nth_list_update split: if_splits)

lemma torch_ones_length: "torch_ones n = Inr m \<Longrightarrow> length m = nat n"
  by (auto simp: torch_ones_def split: if_splits)

lemma getitem_Some: "getitem d k = Inr v \<longleftrightarrow> d k = Some v"
  by (auto simp: getitem_def split: option.splits)

lemma dec_init_mask:
  assumes i: "CharDecodingStep_init PAD BOS ws enc cd vs c2i dr aty ah = Inr d"
    and p: "c2i PAD = Some pad" "0 \<le> pad" and b: "c2i BOS = Some bos" "0 \<le> bos"
  shows "length (output_mask d) = nat (vocab_size d)"
    and "nat pad < length (output_mask d)" and "\<not> output_mask d ! nat pad"
    and "nat bos < length (output_mask d)" and "\<not> output_mask d ! nat bos"
proof -
  from i obtain m0 m1 m2 where m0: "torch_ones vs = Inr m0"
    and m1: "setitem m0 pad False = Inr m1" and m2: "setitem m1 bos False = Inr m2"
    and d: "output_mask d = m2" "vocab_size d = vs"
    using p(1) b(1)
    by (auto simp: CharDecodingStep_init_def Let_def ebind_Inr_iff getitem_Some
        split: if_splits)
  note s1 = setitem_False [OF m1] and s2 = setitem_False [OF m2]
  show "length (output_mask d) = nat (vocab_size d)"
    using torch_ones_length [OF m0] s1(1) s2(1) d by simp
  show "nat pad < length (output_mask d)" using s1(2) [OF p(2)] s2(1) d by simp
  show "\<not> output_mask d ! nat pad" using s1(2) [OF p(2)] s2(3) d by simp
  show "nat bos < length (output_mask d)" using s2(2) [OF b(2)] d by simp
  show "\<not> output_mask d ! nat bos" using s2(2) [OF b(2)] d by simp
qed

lemma enc_init_mask:
  assumes i: "VideoEncoder_init PAD BOS rw pw fd hs fp rt nl bi drp True vs (Some c2i) = Inr e"
    and p: "c2i PAD = Some pad" "0 \<le> pad" and b: "c2i BOS = Some bos" "0 \<le> bos"
  shows "\<exists>head. ctc e = Some head \<and> enable_ctc e \<and>
      length (ctc_output_mask head) = nat (adj_vocab_size head) \<and>
      nat (pad + 1) < length (ctc_output_mask head) \<and> \<not> ctc_output_mask head ! nat (pad + 1) \<and>
      nat (bos + 1) < length (ctc_output_mask head) \<and> \<not> ctc_output_mask head ! nat (bos + 1)"
proof -
  from i obtain m0 m1 m2 head where m0: "torch_ones (vs + 1) = Inr m0"
    and m1: "setitem m0 (pad + 1) False = Inr m1" and m2: "setitem m1 (bos + 1) False = Inr m2"
    and d: "ctc e = Some head" "enable_ctc e" "ctc_output_mask head = m2"
      "adj_vocab_size head = vs + 1"
    using p(1) b(1)
    by (auto simp: VideoEncoder_init_def Let_def ebind_Inr_iff getitem_Some
        split: if_splits)
  note s1 = setitem_False [OF m1] and s2 = setitem_False [OF m2]
  have p1: "0 \<le> pad + 1" and b1: "0 \<le> bos + 1" using p(2) b(2) by simp_all
  have "length (ctc_output_mask head) = nat (adj_vocab_size head)"
    using torch_ones_length [OF m0] s1(1) s2(1) d by simp
  moreover have "nat (pad + 1) < length (ctc_output_mask head)"
    using s1(2) [OF p1] s2(1) d by simp
  moreover have "\<not> ctc_output_mask head ! nat (pad + 1)" using s1(2) [OF p1] s2(3) d by simp
  moreover have "nat (bos + 1) < length (ctc_output_mask head)" using s2(2) [OF b1] d by simp
  moreover have "\<not> ctc_output_mask head ! nat (bos + 1)" using s2(2) [OF b1] d by simp
  ultimately show ?thesis using d by blast
qed


lemma masked_rows2_replicate:
  assumes m: "masked_rows2 row logits (replicate B msk) = Inr out" and b: "b < length out"
  shows "out ! b = row (logits ! b) msk" and "length (logits ! b) = length msk"
proof -
  from m have l: "map length (replicate B msk) = map length logits"
    and o: "out = map (\<lambda>(x, m). row x m) (zip logits (replicate B msk))"
    by (auto simp: masked_rows2_def split: if_splits)
  from l have lB: "length logits = B" by (metis length_map length_replicate)
  from b o lB have bB: "b < B" by simp
  show "out ! b = row (logits ! b) msk" using bB lB by (simp add: o)
  from l have "map length (replicate B msk) ! b = map length logits ! b" by simp
  then show "length (logits ! b) = length msk" using bB lB by simp
qed

lemma masked_rows3_replicate:
  assumes m: "masked_rows3 row logits (replicate B msk) = Inr out"
    and b: "b < length out" and t: "t < length (out ! b)"
  shows "out ! b ! t = row (logits ! b ! t) msk" and "length (logits ! b ! t) = length msk"
proof -
  from m have lB: "B = length logits"
    and c: "\<forall>(v, m)\<in>set (zip logits (replicate B msk)). \<forall>x\<in>set v. length x = length m"
    and o: "out = map (\<lambda>(v, m). map (\<lambda>x. row x m) v) (zip logits (replicate B msk))"
    by (auto simp: masked_rows3_def split: if_splits)
  from b o lB have bB: "b < B" by simp
  have ob: "out ! b = map (\<lambda>x. row x msk) (logits ! b)" using bB lB by (simp add: o)
  with t have tl: "t < length (logits ! b)" by simp
  show "out ! b ! t = row (logits ! b ! t) msk" using tl by (simp add: ob)
  have "(logits ! b, msk) \<in> set (zip logits (replicate B msk))"
    using bB lB by (auto simp: set_zip)
  with c have "\<forall>x\<in>set (logits ! b). length x = length msk" by auto
  then show "length (logits ! b ! t) = length msk" using tl by simp
qed

lemma dec_forward_output:
  assumes "CharDecodingStep_forward sm lsm self input prev lens ehs = Inr (olp, st)"
  obtains logits msk where
    "expand_mask (output_mask self) (length input) (nat (vocab_size self)) = Inr msk"
    "masked_rows2 lsm logits msk = Inr olp"
  using assms
  unfolding CharDecodingStep_forward_def Let_def
  by (fastforce simp: ebind_Inr_iff split: if_splits prod.splits)

lemma enc_forward_output:
  assumes "VideoEncoder_forward lsm self frames lens = Inr (Some olp, hs, fs)"
  obtains head logits msk where "ctc self = Some head"
    "expand_mask (ctc_output_mask head) (length logits) (nat (adj_vocab_size head)) = Inr msk"
    "masked_rows3 lsm logits msk = Inr olp"
  using assms
  unfolding VideoEncoder_forward_def Let_def
  by (fastforce simp: ebind_Inr_iff split: if_splits option.splits)

lemma expand_mask_full: "length m = v \<Longrightarrow> expand_mask m b v = Inr (replicate b m)"
  by (simp add: expand_mask_def)


lemma enc_reserved:
  assumes i: "VideoEncoder_init PAD BOS rw pw fd hs fp rt nl bi drp True vs (Some c2i) = Inr e"
    and p: "c2i PAD = Some pad" "0 \<le> pad" and bo: "c2i BOS = Some bos" "0 \<le> bos"
    and z: "masks_out Z lsm"
    and f: "VideoEncoder_forward lsm e frames lens = Inr (Some olp, hst, fs)"
    and b: "b < length olp" and t: "t < length (olp ! b)"
  shows "Z (olp ! b ! t ! nat (pad + 1)) \<and> Z (olp ! b ! t ! nat (bos + 1))"
proof -
  from enc_init_mask [OF i p bo] obtain head where h: "ctc e = Some head"
    and lm: "length (ctc_output_mask head) = nat (adj_vocab_size head)"
    and mp: "nat (pad + 1) < length (ctc_output_mask head)" "\<not> ctc_output_mask head ! nat (pad + 1)"
    and mb: "nat (bos + 1) < length (ctc_output_mask head)" "\<not> ctc_output_mask head ! nat (bos + 1)"
    by blast
  from f obtain head' logits msk where h': "ctc e = Some head'"
    and em: "expand_mask (ctc_output_mask head') (length logits) (nat (adj_vocab_size head')) = Inr msk"
    and mr: "masked_rows3 lsm logits msk = Inr olp"
    by (rule enc_forward_output)
  from h h' have hh: "head' = head" by simp
  from em lm have msk: "msk = replicate (length logits) (ctc_output_mask head)"
    by (simp add: hh expand_mask_full)
  note r = masked_rows3_replicate [OF mr [unfolded msk] b t]
  from z r(2) mp mb show ?thesis
    unfolding masks_out_def r(1) by blast
qed

lemma dec_reserved:
  assumes i: "CharDecodingStep_init PAD BOS ws enc cd vs c2i dr aty ah = Inr d"
    and p: "c2i PAD = Some pad" "0 \<le> pad" and bo: "c2i BOS = Some bos" "0 \<le> bos"
    and z: "masks_out Z lsm"
    and f: "CharDecodingStep_forward sm lsm d input prev elens ehs = Inr (olp, st)"
    and b: "b < length olp"
  shows "Z (olp ! b ! nat pad) \<and> Z (olp ! b ! nat bos)"
proof -
  note m = dec_init_mask [OF i p bo]
  from f obtain logits msk where
    em: "expand_mask (output_mask d) (length input) (nat (vocab_size d)) = Inr msk"
    and mr: "masked_rows2 lsm logits msk = Inr olp"
    by (rule dec_forward_output)
  from em m(1) have msk: "msk = replicate (length input) (output_mask d)"
    by (simp add: expand_mask_full)
  note r = masked_rows2_replicate [OF mr [unfolded msk] b]
  from z r(2) m show ?thesis
    unfolding masks_out_def r(1) by blast
qed

text \<open>
  C2. Let \<open>Z\<close> be the property "has zero probability" that the log-softmax primitive
  gives every masked position of a row (\<open>masks_out Z lsm\<close>). For an encoder constructed
  with CTC, every row of \<open>output_log_probs\<close> (every batch element and timestep) has \<open>Z\<close> at
  the indices \<open>char2idx[PAD] + 1\<close> and \<open>char2idx[BOS] + 1\<close>; for a decoding step, every row
  of \<open>output_log_probs\<close> has \<open>Z\<close> at \<open>char2idx[PAD]\<close> and \<open>char2idx[BOS]\<close>. The indices of
  the vocabulary are non-negative.
\<close>

theorem reserved_symbols_masked:
  "(VideoEncoder_init PAD BOS rw pw fd hs fp rt nl bi drp True vs (Some c2i) = Inr e \<and>
    c2i PAD = Some pad \<and> 0 \<le> pad \<and> c2i BOS = Some bos \<and> 0 \<le> bos \<and> masks_out Z lsm \<and>
    VideoEncoder_forward lsm e frames lens = Inr (Some olp, hst, fs) \<longrightarrow>
      (\<forall>b<length olp. \<forall>t<length (olp ! b).
          Z (olp ! b ! t ! nat (pad + 1)) \<and> Z (olp ! b ! t ! nat (bos + 1)))) \<and>
   (CharDecodingStep_init PAD BOS ws enc cd dvs dc2i ddr aty ah = Inr d \<and>
    dc2i PAD = Some dpad \<and> 0 \<le> dpad \<and> dc2i BOS = Some dbos \<and> 0 \<le> dbos \<and>
    masks_out Z lsm \<and>
    CharDecodingStep_forward sm lsm d input prev elens ehs = Inr (dolp, st) \<longrightarrow>
      (\<forall>b<length dolp. Z (dolp ! b ! nat dpad) \<and> Z (dolp ! b ! nat dbos)))"
  using enc_reserved [of PAD BOS rw pw fd hs fp rt nl bi drp vs c2i e pad bos Z lsm frames lens
      olp hst fs]
    dec_reserved [of PAD BOS ws enc cd dvs dc2i ddr aty ah d dpad dbos Z lsm sm input prev elens
      ehs dolp st]
  by blast

lemma enc_ctc0_init:
  "VideoEncoder_init ''<pad>'' ''<bos>'' rnn0 ([[1, 0], [0, 1], [1, 1], [0, 0]], [0, 0, 0, 0])
     2 1 ''flatten'' ''GRU'' 1 True 0 True 3 (Some c2i0) = Inr enc_ctc0"
  by (simp add: VideoEncoder_init_def ALLOWED_FRAME_PROCESSING_def ALLOWED_RNN_TYPES_def
      torch_ones_def getitem_def setitem_def c2i0_def enc_ctc0_def enc0_def eval_nat_numeral)

lemma forward_enc_ctc0:
  "VideoEncoder_forward lsm0 enc_ctc0 frames0 [1, 3] =
     Inr (Some [[[3, - 1000, - 1000, 0], [0, - 1000, - 1000, 0], [0, - 1000, - 1000, 0]],
                [[7, - 1000, - 1000, 0], [11, - 1000, - 1000, 0], [16, - 1000, - 1000, 0]]],
          [[[3, - 3], [0, 0], [0, 0]], [[7, - 7], [11, - 11], [16, - 16]]],
          Tensor [[[3, - 3], [34, - 34]]])"
  unfolding VideoEncoder_forward_def
  by (simp add: sort_frames0 enc_ctc0_def enc0_def frames0_def reshape_flatten_def
      pack_padded_sequence_def pad_packed_sequence_def stack_slots_def cat_directions_def cat_def
      slice_step2_def torch_cat_dim2_def index_select_def index_select1_def rnn0_def Let_def
      Linear_forward_def nn_Linear_def expand_mask_def masked_rows3_def lsm0_def
      eval_nat_numeral)

lemma forward_dec0_lsm0:
  "CharDecodingStep_forward sm lsm0 dec0 [2] (Tensor [[[0, 0]]]) [2] ehs0
     = Inr ([[- 1000, - 1000, 3]], Tensor [[[0, 0]]])"
  unfolding CharDecodingStep_forward_def
  by (simp add: Let_def dec0_def dec_weights0_def encoder_mask_of_def shape1_def ehs0_def
      Embedding_forward_def expand_as_def expand_shape_def expand_vec_def Linear_forward_def
      nn_Linear_def expand_mask_def masked_rows2_def lsm0_def eval_nat_numeral)

lemma masks_out_lsm0: "masks_out (\<lambda>v. v \<le> - 1000) lsm0"
  by (simp add: masks_out_def lsm0_def)

theorem reserved_symbols_masked_witness:
  "VideoEncoder_init ''<pad>'' ''<bos>'' rnn0 ([[1, 0], [0, 1], [1, 1], [0, 0]], [0, 0, 0, 0])
     2 1 ''flatten'' ''GRU'' 1 True 0 True 3 (Some c2i0) = Inr enc_ctc0 \<and>
   c2i0 ''<pad>'' = Some 0 \<and> c2i0 ''<bos>'' = Some 1 \<and> masks_out (\<lambda>v. v \<le> - 1000) lsm0 \<and>
   VideoEncoder_forward lsm0 enc_ctc0 frames0 [1, 3] =
     Inr (Some [[[3, - 1000, - 1000, 0], [0, - 1000, - 1000, 0], [0, - 1000, - 1000, 0]],
                [[7, - 1000, - 1000, 0], [11, - 1000, - 1000, 0], [16, - 1000, - 1000, 0]]],
          [[[3, - 3], [0, 0], [0, 0]], [[7, - 7], [11, - 11], [16, - 16]]],
          Tensor [[[3, - 3], [34, - 34]]]) \<and>
   CharDecodingStep_init ''<pad>'' ''<bos>'' dec_weights0 enc0 1 3 c2i0 0 ''none'' (-1) = Inr dec0 \<and>
   CharDecodingStep_forward (\<lambda>x m. x) lsm0 dec0 [2] (Tensor [[[0, 0]]]) [2] ehs0
     = Inr ([[- 1000, - 1000, 3]], Tensor [[[0, 0]]]) \<and>
   [[- 1000, - 1000, 3 :: real]] ! 0 ! nat 0 \<le> - 1000 \<and>
   [[- 1000, - 1000, 3 :: real]] ! 0 ! nat 1 \<le> - 1000"
proof -
  let ?olp = "[[[3, - 1000, - 1000, 0], [0, - 1000, - 1000, 0], [0, - 1000, - 1000, 0]],
                [[7, - 1000, - 1000, 0], [11, - 1000, - 1000, 0], [16, - 1000, - 1000, 0]]]
                :: real list list list"
  let ?dolp = "[[- 1000, - 1000, 3]] :: real list list"
  have c: "c2i0 ''<pad>'' = Some 0" "c2i0 ''<bos>'' = Some 1" by (simp_all add: c2i0_def)
  note t = reserved_symbols_masked [where PAD = "''<pad>''" and BOS = "''<bos>''" and rw = rnn0
      and pw = "([[1, 0], [0, 1], [1, 1], [0, 0]], [0, 0, 0, 0])" and fd = 2 and hs = 1
      and fp = "''flatten''" and rt = "''GRU''" and nl = 1 and bi = True and drp = 0 and vs = 3
      and c2i = c2i0 and e = enc_ctc0 and pad = 0 and bos = 1 and Z = "\<lambda>v. v \<le> - 1000"
      and lsm = lsm0 and frames = frames0 and lens = "[1, 3]" and olp = ?olp
      and hst = "[[[3, - 3], [0, 0], [0, 0]], [[7, - 7], [11, - 11], [16, - 16]]]"
      and fs = "Tensor [[[3, - 3], [34, - 34]]]"
      and ws = dec_weights0 and enc = enc0 and cd = 1 and dvs = 3 and dc2i = c2i0 and ddr = 0
      and aty = "''none''" and ah = "-1" and d = dec0 and dpad = 0 and dbos = 1
      and sm = "\<lambda>x m. x" and input = "[2]" and prev = "Tensor [[[0, 0]]]" and elens = "[2]"
      and ehs = ehs0 and dolp = ?dolp and st = "Tensor [[[0, 0]]]"]
  from t enc_ctc0_init c masks_out_lsm0 forward_enc_ctc0 dec0_init
    forward_dec0_lsm0 [of "\<lambda>x m. x"]
  have "\<forall>b<length ?dolp. ?dolp ! b ! nat 0 \<le> - 1000 \<and> ?dolp ! b ! nat 1 \<le> - 1000"
    by simp
  then have "?dolp ! 0 ! nat 0 \<le> - 1000 \<and> ?dolp ! 0 ! nat 1 \<le> - 1000" by simp
  with enc_ctc0_init c masks_out_lsm0 forward_enc_ctc0 dec0_init
    forward_dec0_lsm0 [of "\<lambda>x m. x"]
  show ?thesis by blast
qed


end
